theory Spec2Isabelle
  imports Main
begin

section \<open>Python values\<close>

text \<open>
  The values that \<^verbatim>\<open>request.get_json()\<close> returns and that \<^verbatim>\<open>jsonify\<close> receives.
  The type parameter \<open>'dt\<close> stands for Python's \<^verbatim>\<open>datetime\<close> objects. JSON numbers are
  modelled as integers only. A dict is an association list; a key is looked up with
  \<open>map_of\<close>.
\<close>

datatype 'dt py =
    PNone
  | PBool bool
  | PInt int
  | PStr string
  | PDate 'dt
  | PList "'dt py list"
  | PDict "(string \<times> 'dt py) list"

datatype exn =
    TypeError | AttributeError | KeyError | ValueError
  | BadRequest | DatabaseError | IntegrityError

text \<open>Truth value of a Python object, as \<^verbatim>\<open>not data\<close> tests it.\<close>

fun truthy :: "'dt py \<Rightarrow> bool" where
  "truthy PNone = False"
| "truthy (PBool b) = b"
| "truthy (PInt n) = (n \<noteq> 0)"
| "truthy (PStr s) = (s \<noteq> [])"
| "truthy (PDate d) = True"
| "truthy (PList xs) = (xs \<noteq> [])"
| "truthy (PDict kvs) = (kvs \<noteq> [])"

fun starts_with :: "string \<Rightarrow> string \<Rightarrow> bool" where
  "starts_with s [] = True"
| "starts_with [] (p # ps) = False"
| "starts_with (c # cs) (p # ps) = (c = p \<and> starts_with cs ps)"

fun contains :: "string \<Rightarrow> string \<Rightarrow> bool" where
  "contains [] p = (p = [])"
| "contains (c # cs) p = (starts_with (c # cs) p \<or> contains cs p)"

text \<open>
  \<^verbatim>\<open>key in data\<close>: key membership for a dict, element membership for a list, substring
  test for a string, \<^verbatim>\<open>TypeError\<close> for every other value.
\<close>

fun py_in :: "string \<Rightarrow> 'dt py \<Rightarrow> exn + bool" where
  "py_in k (PDict kvs) = Inr (k \<in> set (map fst kvs))"
| "py_in k (PList xs) = Inr (PStr k \<in> set xs)"
| "py_in k (PStr s) = Inr (contains s k)"
| "py_in k PNone = Inl TypeError"
| "py_in k (PBool b) = Inl TypeError"
| "py_in k (PInt n) = Inl TypeError"
| "py_in k (PDate d) = Inl TypeError"

text \<open>\<^verbatim>\<open>data[key]\<close> with a string key.\<close>

fun py_getitem :: "'dt py \<Rightarrow> string \<Rightarrow> exn + 'dt py" where
  "py_getitem (PDict kvs) k = (case map_of kvs k of None \<Rightarrow> Inl KeyError | Some v \<Rightarrow> Inr v)"
| "py_getitem PNone k = Inl TypeError"
| "py_getitem (PBool b) k = Inl TypeError"
| "py_getitem (PInt n) k = Inl TypeError"
| "py_getitem (PStr s) k = Inl TypeError"
| "py_getitem (PDate d) k = Inl TypeError"
| "py_getitem (PList xs) k = Inl TypeError"

text \<open>\<^verbatim>\<open>data.get(key, default)\<close>: only a dict has the method.\<close>

fun py_get :: "'dt py \<Rightarrow> string \<Rightarrow> 'dt py \<Rightarrow> exn + 'dt py" where
  "py_get (PDict kvs) k dflt = Inr (case map_of kvs k of None \<Rightarrow> dflt | Some v \<Rightarrow> v)"
| "py_get PNone k dflt = Inl AttributeError"
| "py_get (PBool b) k dflt = Inl AttributeError"
| "py_get (PInt n) k dflt = Inl AttributeError"
| "py_get (PStr s) k dflt = Inl AttributeError"
| "py_get (PDate d) k dflt = Inl AttributeError"
| "py_get (PList xs) k dflt = Inl AttributeError"

text \<open>\<^verbatim>\<open>sep.join(xs)\<close>.\<close>

fun join :: "string \<Rightarrow> string list \<Rightarrow> string" where
  "join sep [] = []"
| "join sep [x] = x"
| "join sep (x # y # ys) = x @ sep @ join sep (y # ys)"

text \<open>
  \<^verbatim>\<open>all(field in data for field in fields)\<close> stops at the first field that is absent;
  the list comprehension of the error message visits every field.
\<close>

fun all_in :: "string list \<Rightarrow> 'dt py \<Rightarrow> exn + bool" where
  "all_in [] data = Inr True"
| "all_in (f # fs) data =
     (case py_in f data of
        Inl e \<Rightarrow> Inl e
      | Inr b \<Rightarrow> if b then all_in fs data else Inr False)"

fun not_in :: "string list \<Rightarrow> 'dt py \<Rightarrow> exn + string list" where
  "not_in [] data = Inr []"
| "not_in (f # fs) data =
     (case py_in f data of
        Inl e \<Rightarrow> Inl e
      | Inr b \<Rightarrow>
          (case not_in fs data of
             Inl e \<Rightarrow> Inl e
           | Inr ms \<Rightarrow> Inr (if b then ms else f # ms)))"

section \<open>The environment: date parsing and the database driver\<close>

text \<open>
  What the program calls but does not define is a parameter of the model:
  \<^item> \<open>strptime\<close> is \<^verbatim>\<open>datetime.strptime(s, '%Y-%m-%d %H:%M:%S')\<close>, \<open>None\<close> for
    \<^verbatim>\<open>ValueError\<close>;
  \<^item> \<open>strftime\<close> is \<^verbatim>\<open>d.strftime('%Y-%m-%d %H:%M:%S')\<close>;
  \<^item> \<open>bind_varchar\<close>, \<open>bind_text\<close> and \<open>bind_datetime\<close> are what the driver and the
    database make of a Python value bound to a \<^verbatim>\<open>String(255)\<close>, a \<^verbatim>\<open>Text\<close> and a
    \<^verbatim>\<open>DateTime\<close> column: \<open>None\<close> when the statement is refused, \<open>Some None\<close> for
    \<^verbatim>\<open>NULL\<close>, \<open>Some (Some v)\<close> for the stored value;
  \<^item> \<open>exc_text\<close> is the text of an exception, as \<^verbatim>\<open>f"{e}"\<close> prints it.
\<close>

record 'dt backend =
  strptime :: "string \<Rightarrow> 'dt option"
  strftime :: "'dt \<Rightarrow> string"
  bind_varchar :: "'dt py \<Rightarrow> string option option"
  bind_text :: "'dt py \<Rightarrow> string option option"
  bind_datetime :: "'dt py \<Rightarrow> 'dt option option"
  exc_text :: "exn \<Rightarrow> string"

text \<open>\<^verbatim>\<open>datetime.strptime(v, fmt)\<close> on any Python value: a non-string raises \<^verbatim>\<open>TypeError\<close>.\<close>

definition py_strptime :: "'dt backend \<Rightarrow> 'dt py \<Rightarrow> exn + 'dt" where
  "py_strptime B v =
     (case v of
        PStr s \<Rightarrow> (case strptime B s of None \<Rightarrow> Inl ValueError | Some d \<Rightarrow> Inr d)
      | _ \<Rightarrow> Inl TypeError)"

section \<open>The table \<^verbatim>\<open>events\<close>\<close>

text \<open>
  The columns of \<^verbatim>\<open>models/events.py\<close>. Every column but the primary key is optional in
  the row type: that \<^verbatim>\<open>title\<close>, \<^verbatim>\<open>event_date\<close> and \<^verbatim>\<open>location\<close> are never \<^verbatim>\<open>NULL\<close> is
  enforced by the \<^verbatim>\<open>nullable=False\<close> check of a write, not by the type.
\<close>

record 'dt event =
  row_id :: int
  title :: "string option"
  description :: "string option"
  event_date :: "'dt option"
  location :: "string option"
  created_at :: "'dt option"

record 'dt database =
  events :: "'dt event list"
  next_id :: int

definition empty_db :: "'dt database" where
  "empty_db = \<lparr>events = [], next_id = 1\<rparr>"

text \<open>The \<^verbatim>\<open>nullable=False\<close> columns.\<close>

definition not_null :: "'dt event \<Rightarrow> bool" where
  "not_null r = (title r \<noteq> None \<and> event_date r \<noteq> None \<and> location r \<noteq> None)"

text \<open>\<^verbatim>\<open>Event.query.get(event_id)\<close> and \<^verbatim>\<open>SELECT * FROM events WHERE id = %s\<close>.\<close>

definition select_by_id :: "'dt database \<Rightarrow> int \<Rightarrow> 'dt event option" where
  "select_by_id db i = find (\<lambda>r. row_id r = i) (events db)"

text \<open>
  \<^verbatim>\<open>INSERT INTO events (title, description, event_date, location)\<close>: the four values are
  bound, the row gets the next key and the server's time, and a \<^verbatim>\<open>NULL\<close> in a
  \<^verbatim>\<open>nullable=False\<close> column refuses the row. A refused insert leaves the table and the
  counter as they were. The result is \<^verbatim>\<open>lastrowid\<close> and the new table.
\<close>

definition db_insert ::
  "'dt backend \<Rightarrow> 'dt \<Rightarrow> 'dt py \<Rightarrow> 'dt py \<Rightarrow> 'dt py \<Rightarrow> 'dt py \<Rightarrow> 'dt database
     \<Rightarrow> exn + (int \<times> 'dt database)" where
  "db_insert B now t d e l db =
     (case bind_varchar B t of None \<Rightarrow> Inl DatabaseError | Some t' \<Rightarrow>
     (case bind_text B d of None \<Rightarrow> Inl DatabaseError | Some d' \<Rightarrow>
     (case bind_datetime B e of None \<Rightarrow> Inl DatabaseError | Some e' \<Rightarrow>
     (case bind_varchar B l of None \<Rightarrow> Inl DatabaseError | Some l' \<Rightarrow>
        (let r = \<lparr>row_id = next_id db, title = t', description = d', event_date = e',
                  location = l', created_at = Some now\<rparr>
         in if not_null r
            then Inr (next_id db, db\<lparr>events := events db @ [r], next_id := next_id db + 1\<rparr>)
            else Inl IntegrityError)))))"

text \<open>
  Modelled from the spec: the statement that creates the table of \<^verbatim>\<open>app_mysql.py\<close> is not
  among the source files. Its table is taken to be the one of the specification
  (one table \<^verbatim>\<open>events\<close> with the columns of its section 3): the columns and the required
  columns of \<^verbatim>\<open>models/events.py\<close>, with \<^verbatim>\<open>id\<close> and \<^verbatim>\<open>created_at\<close> set by the server.

  \<^verbatim>\<open>UPDATE events SET title = %s, description = %s, event_date = %s, location = %s
  WHERE id = %s\<close>. The result is \<^verbatim>\<open>rowcount\<close> and the new table; the connection is
  opened with the driver's default flags, so \<^verbatim>\<open>rowcount\<close> counts the rows whose values
  changed, not the rows the \<^verbatim>\<open>WHERE\<close> matched.
\<close>

definition set_columns ::
  "string option \<Rightarrow> string option \<Rightarrow> 'dt option \<Rightarrow> string option \<Rightarrow> int
     \<Rightarrow> 'dt event \<Rightarrow> 'dt event" where
  "set_columns t d e l i r =
     (if row_id r = i
      then r\<lparr>title := t, description := d, event_date := e, location := l\<rparr>
      else r)"

definition db_update ::
  "'dt backend \<Rightarrow> 'dt py \<Rightarrow> 'dt py \<Rightarrow> 'dt py \<Rightarrow> 'dt py \<Rightarrow> int \<Rightarrow> 'dt database
     \<Rightarrow> exn + (nat \<times> 'dt database)" where
  "db_update B t d e l i db =
     (case bind_varchar B t of None \<Rightarrow> Inl DatabaseError | Some t' \<Rightarrow>
     (case bind_text B d of None \<Rightarrow> Inl DatabaseError | Some d' \<Rightarrow>
     (case bind_datetime B e of None \<Rightarrow> Inl DatabaseError | Some e' \<Rightarrow>
     (case bind_varchar B l of None \<Rightarrow> Inl DatabaseError | Some l' \<Rightarrow>
        (if list_ex (\<lambda>r. row_id r = i \<and> \<not> not_null (set_columns t' d' e' l' i r)) (events db)
         then Inl IntegrityError
         else Inr (length (filter (\<lambda>r. set_columns t' d' e' l' i r \<noteq> r) (events db)),
                   db\<lparr>events := map (set_columns t' d' e' l' i) (events db)\<rparr>))))))"

text \<open>\<^verbatim>\<open>DELETE FROM events WHERE id = %s\<close> and \<^verbatim>\<open>db.session.delete(event)\<close>.\<close>

definition db_delete :: "int \<Rightarrow> 'dt database \<Rightarrow> 'dt database" where
  "db_delete i db = db\<lparr>events := filter (\<lambda>r. row_id r \<noteq> i) (events db)\<rparr>"

section \<open>Requests, responses and storage calls\<close>

text \<open>
  The body of a request is what \<^verbatim>\<open>request.get_json()\<close> does with it. It raises
  (\<open>Unreadable\<close>) when the request has no JSON body or the body is not valid JSON; it
  returns a Python value (\<open>Parsed\<close>) otherwise, \<^verbatim>\<open>None\<close> for the JSON value \<^verbatim>\<open>null\<close>.
\<close>

datatype 'dt body = Unreadable | Parsed "'dt py"

text \<open>A response is the pair a view function returns: the value given to \<^verbatim>\<open>jsonify\<close> and the status.\<close>

type_synonym 'dt response = "'dt py \<times> nat"

text \<open>
  The calls a view function makes to the storage layer, in the order it makes them:
  \<open>Select\<close> for \<^verbatim>\<open>Event.query.get\<close>, \<^verbatim>\<open>Event.query.all\<close> and the execution of a \<^verbatim>\<open>SELECT\<close>;
  \<open>Insert\<close> for \<^verbatim>\<open>db.session.add\<close> and the execution of an \<^verbatim>\<open>INSERT\<close>; \<open>Update\<close> for the
  execution of an \<^verbatim>\<open>UPDATE\<close>; \<open>Delete\<close> for \<^verbatim>\<open>db.session.delete\<close> and the execution of a
  \<^verbatim>\<open>DELETE\<close>; \<open>Commit\<close> and \<open>Rollback\<close> for the calls of those names. Opening and closing
  a cursor is not recorded.
\<close>

datatype storage_call = Select | Insert | Update | Delete | Commit | Rollback

type_synonym 'dt outcome = "'dt response \<times> 'dt database \<times> storage_call list"

definition json_error :: "string \<Rightarrow> nat \<Rightarrow> 'dt response" where
  "json_error msg code = (PDict [(''error'', PStr msg)], code)"

definition json_message :: "string \<Rightarrow> nat \<Rightarrow> 'dt response" where
  "json_message msg code = (PDict [(''message'', PStr msg)], code)"

definition status :: "'dt outcome \<Rightarrow> nat" where
  "status out = snd (fst out)"

definition payload :: "'dt outcome \<Rightarrow> 'dt py" where
  "payload out = fst (fst out)"

definition stored :: "'dt outcome \<Rightarrow> 'dt database" where
  "stored out = fst (snd out)"

definition calls :: "'dt outcome \<Rightarrow> storage_call list" where
  "calls out = snd (snd out)"

text \<open>
  \<^verbatim>\<open>except Exception as e\<close> of the writing views: the transaction is rolled back, so the
  table is the one the request found, and the answer is a 500 with the exception's text.
\<close>

definition rolled_back ::
  "'dt backend \<Rightarrow> 'dt database \<Rightarrow> (exn \<times> storage_call list) + 'dt outcome \<Rightarrow> 'dt outcome" where
  "rolled_back B db res =
     (case res of
        Inl (e, cs) \<Rightarrow> (json_error (''An error occured: '' @ exc_text B e) 500, db, cs @ [Rollback])
      | Inr out \<Rightarrow> out)"

section \<open>The ORM variant: \<^verbatim>\<open>app.py\<close>\<close>

definition py_str :: "string option \<Rightarrow> 'dt py" where
  "py_str x = (case x of None \<Rightarrow> PNone | Some s \<Rightarrow> PStr s)"

definition py_date :: "'dt option \<Rightarrow> 'dt py" where
  "py_date x = (case x of None \<Rightarrow> PNone | Some d \<Rightarrow> PDate d)"

text \<open>\<^verbatim>\<open>Event.to_dict\<close>: the two timestamps are formatted, \<^verbatim>\<open>None\<close> stays \<^verbatim>\<open>None\<close>.\<close>

definition to_dict :: "'dt backend \<Rightarrow> 'dt event \<Rightarrow> 'dt py" where
  "to_dict B self =
     PDict [(''id'', PInt (row_id self)),
            (''title'', py_str (title self)),
            (''description'', py_str (description self)),
            (''event_date'',
               (case event_date self of None \<Rightarrow> PNone | Some d \<Rightarrow> PStr (strftime B d))),
            (''location'', py_str (location self)),
            (''created_at'',
               (case created_at self of None \<Rightarrow> PNone | Some d \<Rightarrow> PStr (strftime B d)))]"

definition required_fields :: "string list" where
  "required_fields = [''title'', ''description'', ''event_date'', ''location'']"

text \<open>
  \<^verbatim>\<open>create_event\<close>, the body of its \<^verbatim>\<open>try\<close>. After the commit the session reloads the
  object by its primary key, so \<^verbatim>\<open>new_event.id\<close> and \<^verbatim>\<open>new_event.to_dict()\<close> read the
  stored row.
\<close>

definition create_event_try ::
  "'dt backend \<Rightarrow> 'dt \<Rightarrow> 'dt body \<Rightarrow> 'dt database
     \<Rightarrow> (exn \<times> storage_call list) + 'dt outcome" where
  "create_event_try B now req db =
     (case req of
        Unreadable \<Rightarrow> Inl (BadRequest, [])
      | Parsed data \<Rightarrow>
          if \<not> truthy data
          then Inr (json_error ''Invalid JSON or no data provided'' 400, db, [])
          else
           (case all_in required_fields data of
              Inl e \<Rightarrow> Inl (e, [])
            | Inr ok \<Rightarrow>
                if \<not> ok
                then
                 (case not_in required_fields data of
                    Inl e \<Rightarrow> Inl (e, [])
                  | Inr ms \<Rightarrow>
                      Inr (json_error (''Missing required fields: '' @ join '', '' ms) 400,
                           db, []))
                else
                 (case py_getitem data ''event_date'' of
                    Inl e \<Rightarrow> Inl (e, [])
                  | Inr v \<Rightarrow>
                     (case py_strptime B v of
                        Inl e \<Rightarrow>
                          if e = ValueError
                          then Inr (json_error
                                 ''Invalid event_date format. Use YYYY-MM-DD HH:MM:SS'' 400,
                                 db, [])
                          else Inl (e, [])
                      | Inr parsed \<Rightarrow>
                         (case py_getitem data ''title'' of
                            Inl e \<Rightarrow> Inl (e, [])
                          | Inr t \<Rightarrow>
                         (case py_getitem data ''description'' of
                            Inl e \<Rightarrow> Inl (e, [])
                          | Inr d \<Rightarrow>
                         (case py_getitem data ''location'' of
                            Inl e \<Rightarrow> Inl (e, [])
                          | Inr l \<Rightarrow>
                         (case db_insert B now t d (PDate parsed) l db of
                            Inl e \<Rightarrow> Inl (e, [Insert, Commit])
                          | Inr (new_id, db') \<Rightarrow>
                             (case select_by_id db' new_id of
                                None \<Rightarrow> Inl (DatabaseError, [Insert, Commit])
                              | Some new_event \<Rightarrow>
                                  Inr ((PDict [(''message'', PStr ''Event created successfully''),
                                               (''event_id'', PInt (row_id new_event)),
                                               (''event'', to_dict B new_event)], 201),
                                       db', [Insert, Commit]))))))))))"

definition create_event :: "'dt backend \<Rightarrow> 'dt \<Rightarrow> 'dt body \<Rightarrow> 'dt database \<Rightarrow> 'dt outcome" where
  "create_event B now req db = rolled_back B db (create_event_try B now req db)"

definition get_all_events :: "'dt backend \<Rightarrow> 'dt database \<Rightarrow> 'dt outcome" where
  "get_all_events B db =
     ((PDict [(''events'', PList (map (to_dict B) (events db)))], 200), db, [Select])"

definition get_single_event :: "'dt backend \<Rightarrow> int \<Rightarrow> 'dt database \<Rightarrow> 'dt outcome" where
  "get_single_event B event_id db =
     (case select_by_id db event_id of
        Some event \<Rightarrow> ((PDict [(''event'', to_dict B event)], 200), db, [Select])
      | None \<Rightarrow> (json_message ''Event not found'' 404, db, [Select]))"

text \<open>\<^verbatim>\<open>if key in data: ... data[key]\<close>: the value to assign, if the key is there.\<close>

definition supplied :: "'dt py \<Rightarrow> string \<Rightarrow> exn + 'dt py option" where
  "supplied data k =
     (case py_in k data of
        Inl e \<Rightarrow> Inl e
      | Inr b \<Rightarrow>
          if b then (case py_getitem data k of Inl e \<Rightarrow> Inl e | Inr v \<Rightarrow> Inr (Some v))
          else Inr None)"

text \<open>
  The commit of \<^verbatim>\<open>update_event\<close>: the attributes that were assigned are bound and
  written to the row of the loaded object; an assigned \<^verbatim>\<open>nullable=False\<close> column that
  becomes \<^verbatim>\<open>NULL\<close> refuses the statement.
\<close>

definition flush_update ::
  "'dt backend \<Rightarrow> 'dt event \<Rightarrow> 'dt py option \<Rightarrow> 'dt py option \<Rightarrow> 'dt option \<Rightarrow> 'dt py option
     \<Rightarrow> 'dt database \<Rightarrow> exn + 'dt database" where
  "flush_update B event t d e l db =
     (case (case t of None \<Rightarrow> Some (title event) | Some v \<Rightarrow> bind_varchar B v) of
        None \<Rightarrow> Inl DatabaseError | Some t' \<Rightarrow>
     (case (case d of None \<Rightarrow> Some (description event) | Some v \<Rightarrow> bind_text B v) of
        None \<Rightarrow> Inl DatabaseError | Some d' \<Rightarrow>
     (case (case e of None \<Rightarrow> Some (event_date event) | Some v \<Rightarrow> bind_datetime B (PDate v)) of
        None \<Rightarrow> Inl DatabaseError | Some e' \<Rightarrow>
     (case (case l of None \<Rightarrow> Some (location event) | Some v \<Rightarrow> bind_varchar B v) of
        None \<Rightarrow> Inl DatabaseError | Some l' \<Rightarrow>
        (if (t \<noteq> None \<and> t' = None) \<or> (e \<noteq> None \<and> e' = None) \<or> (l \<noteq> None \<and> l' = None)
         then Inl IntegrityError
         else Inr (db\<lparr>events := map (set_columns t' d' e' l' (row_id event)) (events db)\<rparr>))))))"

text \<open>
  \<^verbatim>\<open>update_event\<close>, the body of its \<^verbatim>\<open>try\<close>. The assignments before a date that does
  not parse stay in the session, which the request discards: the table is unchanged.
\<close>

definition update_event_try ::
  "'dt backend \<Rightarrow> int \<Rightarrow> 'dt body \<Rightarrow> 'dt database
     \<Rightarrow> (exn \<times> storage_call list) + 'dt outcome" where
  "update_event_try B event_id req db =
     (case select_by_id db event_id of
        None \<Rightarrow> Inr (json_message ''Event not found'' 404, db, [Select])
      | Some event \<Rightarrow>
         (case req of
            Unreadable \<Rightarrow> Inl (BadRequest, [Select])
          | Parsed data \<Rightarrow>
              if \<not> truthy data
              then Inr (json_error ''Invalid JSON or no data provided'' 400, db, [Select])
              else
               (case supplied data ''title'' of
                  Inl ex \<Rightarrow> Inl (ex, [Select])
                | Inr t \<Rightarrow>
               (case supplied data ''description'' of
                  Inl ex \<Rightarrow> Inl (ex, [Select])
                | Inr d \<Rightarrow>
               (case supplied data ''event_date'' of
                  Inl ex \<Rightarrow> Inl (ex, [Select])
                | Inr ev \<Rightarrow>
               (case (case ev of None \<Rightarrow> Inr None
                      | Some v \<Rightarrow>
                          (case py_strptime B v of Inl ex \<Rightarrow> Inl ex | Inr p \<Rightarrow> Inr (Some p))) of
                  Inl ex \<Rightarrow>
                    if ex = ValueError
                    then Inr (json_error
                           ''Invalid event_date format. Use YYYY-MM-DD HH:MM:SS'' 400,
                           db, [Select])
                    else Inl (ex, [Select])
                | Inr e \<Rightarrow>
               (case supplied data ''location'' of
                  Inl ex \<Rightarrow> Inl (ex, [Select])
                | Inr l \<Rightarrow>
               (case flush_update B event t d e l db of
                  Inl ex \<Rightarrow> Inl (ex, [Select, Commit])
                | Inr db' \<Rightarrow>
                   (case select_by_id db' event_id of
                      None \<Rightarrow> Inl (DatabaseError, [Select, Commit])
                    | Some event' \<Rightarrow>
                        Inr ((PDict [(''message'', PStr ''Event updated successfully''),
                                     (''event_id'', PInt (row_id event')),
                                     (''updated_event'', to_dict B event')], 200),
                             db', [Select, Commit]))))))))))"

definition update_event :: "'dt backend \<Rightarrow> int \<Rightarrow> 'dt body \<Rightarrow> 'dt database \<Rightarrow> 'dt outcome" where
  "update_event B event_id req db = rolled_back B db (update_event_try B event_id req db)"

definition delete_event :: "'dt backend \<Rightarrow> int \<Rightarrow> 'dt database \<Rightarrow> 'dt outcome" where
  "delete_event B event_id db =
     (case select_by_id db event_id of
        None \<Rightarrow> (json_message ''event_to_delete'' 400, db, [Select])
      | Some event_to_delete \<Rightarrow>
          (json_message ''Event deleted successfully'' 200,
           db_delete (row_id event_to_delete) db, [Select, Delete, Commit]))"

section \<open>The raw SQL variant: \<^verbatim>\<open>mysql_raw/app_mysql.py\<close>\<close>

text \<open>A row as the \<^verbatim>\<open>DictCursor\<close> returns it: the timestamps are \<^verbatim>\<open>datetime\<close> objects.\<close>

definition row_dict :: "'dt event \<Rightarrow> 'dt py" where
  "row_dict r =
     PDict [(''id'', PInt (row_id r)),
            (''title'', py_str (title r)),
            (''description'', py_str (description r)),
            (''event_date'', py_date (event_date r)),
            (''location'', py_str (location r)),
            (''created_at'', py_date (created_at r))]"

definition create_event_mysql_try ::
  "'dt backend \<Rightarrow> 'dt \<Rightarrow> 'dt body \<Rightarrow> 'dt database
     \<Rightarrow> (exn \<times> storage_call list) + 'dt outcome" where
  "create_event_mysql_try B now req db =
     (case req of
        Unreadable \<Rightarrow> Inl (BadRequest, [])
      | Parsed data \<Rightarrow>
          if \<not> truthy data
          then Inr (json_error ''Invalid JSON or no data provided'' 400, db, [])
          else
           (case all_in [''title'', ''description'', ''event_date'', ''location''] data of
              Inl ex \<Rightarrow> Inl (ex, [])
            | Inr ok \<Rightarrow>
                if \<not> ok
                then Inr (json_error
                       ''Missing required event fields (title, description, event_date, location)''
                       400, db, [])
                else
                 (case py_get data ''title'' PNone of
                    Inl ex \<Rightarrow> Inl (ex, [])
                  | Inr t \<Rightarrow>
                 (case py_get data ''description'' PNone of
                    Inl ex \<Rightarrow> Inl (ex, [])
                  | Inr d \<Rightarrow>
                 (case py_get data ''event_date'' PNone of
                    Inl ex \<Rightarrow> Inl (ex, [])
                  | Inr e \<Rightarrow>
                 (case py_get data ''location'' PNone of
                    Inl ex \<Rightarrow> Inl (ex, [])
                  | Inr l \<Rightarrow>
                 (case db_insert B now t d e l db of
                    Inl ex \<Rightarrow> Inl (ex, [Insert])
                  | Inr (new_event_id, db') \<Rightarrow>
                      Inr ((PDict [(''message'', PStr ''Event created successfully''),
                                   (''event_id'', PInt new_event_id),
                                   (''event'', PDict [(''title'', t),
                                                      (''description'', d),
                                                      (''event_date'', e),
                                                      (''location'', l)])], 201),
                           db', [Insert, Commit]))))))))"

definition create_event_mysql ::
  "'dt backend \<Rightarrow> 'dt \<Rightarrow> 'dt body \<Rightarrow> 'dt database \<Rightarrow> 'dt outcome" where
  "create_event_mysql B now req db = rolled_back B db (create_event_mysql_try B now req db)"

definition get_all_events_mysql :: "'dt database \<Rightarrow> 'dt outcome" where
  "get_all_events_mysql db =
     ((PDict [(''events'', PList (map row_dict (events db)))], 200), db, [Select])"

definition get_single_event_mysql :: "int \<Rightarrow> 'dt database \<Rightarrow> 'dt outcome" where
  "get_single_event_mysql event_id db =
     (case select_by_id db event_id of
        None \<Rightarrow> (json_message ''Event not found'' 404, db, [Select])
      | Some event \<Rightarrow> ((PDict [(''event'', row_dict event)], 200), db, [Select]))"

text \<open>
  \<^verbatim>\<open>update_event\<close>, the body of its \<^verbatim>\<open>try\<close>. The default of \<^verbatim>\<open>data.get('event_date', ...)\<close>
  is computed whether or not the key is there, and formatting a \<^verbatim>\<open>NULL\<close> date raises
  \<^verbatim>\<open>AttributeError\<close>.
\<close>

definition update_event_mysql_try ::
  "'dt backend \<Rightarrow> int \<Rightarrow> 'dt body \<Rightarrow> 'dt database
     \<Rightarrow> (exn \<times> storage_call list) + 'dt outcome" where
  "update_event_mysql_try B event_id req db =
     (case select_by_id db event_id of
        None \<Rightarrow> Inr (json_message ''Event not found'' 404, db, [Select])
      | Some event_to_update \<Rightarrow>
         (case req of
            Unreadable \<Rightarrow> Inl (BadRequest, [Select])
          | Parsed data \<Rightarrow>
              if \<not> truthy data
              then Inr (json_error ''Invalid JSON or data not provided'' 400, db, [Select])
              else
               (case py_get data ''title'' (py_str (title event_to_update)) of
                  Inl ex \<Rightarrow> Inl (ex, [Select])
                | Inr t \<Rightarrow>
               (case py_get data ''description'' (py_str (description event_to_update)) of
                  Inl ex \<Rightarrow> Inl (ex, [Select])
                | Inr d \<Rightarrow>
               (case event_date event_to_update of
                  None \<Rightarrow> Inl (AttributeError, [Select])
                | Some stored_date \<Rightarrow>
               (case py_get data ''event_date'' (PStr (strftime B stored_date)) of
                  Inl ex \<Rightarrow> Inl (ex, [Select])
                | Inr e \<Rightarrow>
               (case py_get data ''location'' (py_str (location event_to_update)) of
                  Inl ex \<Rightarrow> Inl (ex, [Select])
                | Inr l \<Rightarrow>
               (case db_update B t d e l event_id db of
                  Inl ex \<Rightarrow> Inl (ex, [Select, Update])
                | Inr (rowcount, db') \<Rightarrow>
                    if rowcount = 0
                    then Inr (json_message
                           ''No changes made to event or event not found after initial check''
                           200, db', [Select, Update, Commit])
                    else Inr ((PDict [(''message'', PStr ''Event updated successfully''),
                                      (''event_id'', PInt event_id),
                                      (''updated_event'', PDict [(''title'', t),
                                                                 (''description'', d),
                                                                 (''event_date'', e),
                                                                 (''location'', l)])], 200),
                              db', [Select, Update, Commit])))))))))"

definition update_event_mysql ::
  "'dt backend \<Rightarrow> int \<Rightarrow> 'dt body \<Rightarrow> 'dt database \<Rightarrow> 'dt outcome" where
  "update_event_mysql B event_id req db =
     rolled_back B db (update_event_mysql_try B event_id req db)"

text \<open>\<^verbatim>\<open>delete_event\<close>: \<^verbatim>\<open>SELECT EXISTS (...)\<close>, then the \<^verbatim>\<open>DELETE\<close>.\<close>

definition delete_event_mysql :: "int \<Rightarrow> 'dt database \<Rightarrow> 'dt outcome" where
  "delete_event_mysql event_id db =
     (if \<not> list_ex (\<lambda>r. row_id r = event_id) (events db)
      then (json_message ''Event not found'' 404, db, [Select])
      else (json_message ''Event deleted successfully'' 200,
            db_delete event_id db, [Select, Delete, Commit]))"

section \<open>Requests in sequence\<close>

text \<open>
  The routes of the two applications. A \<open>POST\<close> carries the time of the database
  server at which it is served.
\<close>

datatype 'dt request =
    POST 'dt "'dt body"
  | GET_all
  | GET int
  | PUT int "'dt body"
  | DELETE int

definition handle :: "'dt backend \<Rightarrow> 'dt request \<Rightarrow> 'dt database \<Rightarrow> 'dt outcome" where
  "handle B r db =
     (case r of
        POST now b \<Rightarrow> create_event B now b db
      | GET_all \<Rightarrow> get_all_events B db
      | GET i \<Rightarrow> get_single_event B i db
      | PUT i b \<Rightarrow> update_event B i b db
      | DELETE i \<Rightarrow> delete_event B i db)"

definition handle_mysql :: "'dt backend \<Rightarrow> 'dt request \<Rightarrow> 'dt database \<Rightarrow> 'dt outcome" where
  "handle_mysql B r db =
     (case r of
        POST now b \<Rightarrow> create_event_mysql B now b db
      | GET_all \<Rightarrow> get_all_events_mysql db
      | GET i \<Rightarrow> get_single_event_mysql i db
      | PUT i b \<Rightarrow> update_event_mysql B i b db
      | DELETE i \<Rightarrow> delete_event_mysql i db)"

text \<open>The table after a list of requests, each served on the table the one before left.\<close>

fun run :: "'dt backend \<Rightarrow> 'dt request list \<Rightarrow> 'dt database \<Rightarrow> 'dt database" where
  "run B [] db = db"
| "run B (r # rs) db = run B rs (stored (handle B r db))"

fun run_mysql :: "'dt backend \<Rightarrow> 'dt request list \<Rightarrow> 'dt database \<Rightarrow> 'dt database" where
  "run_mysql B [] db = db"
| "run_mysql B (r # rs) db = run_mysql B rs (stored (handle_mysql B r db))"

text \<open>The primary key: every key in the table is below the counter of the next insert.\<close>

definition keys_ok :: "'dt database \<Rightarrow> bool" where
  "keys_ok db = list_all (\<lambda>r. row_id r < next_id db) (events db)"

text \<open>The answer of \<^verbatim>\<open>app_mysql.py\<close> to an update that affected no row.\<close>

definition no_change :: "'dt py" where
  "no_change =
     PDict [(''message'',
       PStr ''No changes made to event or event not found after initial check'')]"

section \<open>Fields of an update\<close>

text \<open>
  \<open>field v k\<close> is the entry \<open>k\<close> of a dict. \<open>sent req k\<close> says that the body carries the
  key \<open>k\<close>: \<^verbatim>\<open>k in data\<close> is true. \<open>round_trips B r\<close> says that the database stores the
  values of the row \<open>r\<close> as they are when they are bound again, the date after it was
  formatted. \<open>omitted_kept\<close> and \<open>omitted_returned\<close> say that the fields a body does not carry
  have, in a row and in a returned record, the values of the row \<open>ev\<close>.
\<close>

definition field :: "'dt py \<Rightarrow> string \<Rightarrow> 'dt py option" where
  "field v k = (case v of PDict kvs \<Rightarrow> map_of kvs k | _ \<Rightarrow> None)"

definition sent :: "'dt body \<Rightarrow> string \<Rightarrow> bool" where
  "sent req k = (case req of Unreadable \<Rightarrow> False | Parsed data \<Rightarrow> py_in k data = Inr True)"

definition round_trips :: "'dt backend \<Rightarrow> 'dt event \<Rightarrow> bool" where
  "round_trips B r =
     (bind_varchar B (py_str (title r)) = Some (title r)
      \<and> bind_text B (py_str (description r)) = Some (description r)
      \<and> bind_varchar B (py_str (location r)) = Some (location r)
      \<and> (case event_date r of
            None \<Rightarrow> True
          | Some d \<Rightarrow> bind_datetime B (PStr (strftime B d)) = Some (Some d)))"

definition omitted_kept :: "'dt body \<Rightarrow> 'dt event \<Rightarrow> 'dt event \<Rightarrow> bool" where
  "omitted_kept req ev ev' =
     (row_id ev' = row_id ev \<and> created_at ev' = created_at ev
      \<and> (sent req ''title'' \<or> title ev' = title ev)
      \<and> (sent req ''description'' \<or> description ev' = description ev)
      \<and> (sent req ''event_date'' \<or> event_date ev' = event_date ev)
      \<and> (sent req ''location'' \<or> location ev' = location ev))"

definition omitted_returned :: "'dt backend \<Rightarrow> 'dt body \<Rightarrow> 'dt event \<Rightarrow> 'dt py \<Rightarrow> bool" where
  "omitted_returned B req ev rec =
     list_all (\<lambda>k. sent req k \<or> field rec k = field (to_dict B ev) k) required_fields"

section \<open>Requests on which the variants are compared\<close>

text \<open>
  \<open>date_agrees B data\<close>: if the body is an object that carries \<^verbatim>\<open>event_date\<close>, the value is a
  string that \<^verbatim>\<open>strptime\<close> parses, and the database reads the string as the timestamp
  that \<^verbatim>\<open>strptime\<close> returns. \<open>object_or_empty\<close>: the body is a JSON object, or a value that
  \<^verbatim>\<open>not data\<close> rejects. \<open>comparable\<close>: a create request whose date agrees; any read; an
  update of an id with no row, or of a row without \<^verbatim>\<open>NULL\<close> in the required columns that
  the database stores as it is, with a body that cannot be read, or is empty, or is an
  object whose date agrees; a delete of an id that has a row.
\<close>

definition date_agrees :: "'dt backend \<Rightarrow> 'dt py \<Rightarrow> bool" where
  "date_agrees B data =
     (case data of
        PDict kvs \<Rightarrow>
          (case map_of kvs ''event_date'' of
             None \<Rightarrow> True
           | Some v \<Rightarrow>
               (case v of
                  PStr s \<Rightarrow>
                    (case strptime B s of
                       None \<Rightarrow> False
                     | Some d \<Rightarrow> bind_datetime B (PStr s) = bind_datetime B (PDate d))
                | _ \<Rightarrow> False))
      | _ \<Rightarrow> True)"

definition object_or_empty :: "'dt py \<Rightarrow> bool" where
  "object_or_empty data = (\<not> truthy data \<or> (case data of PDict kvs \<Rightarrow> True | _ \<Rightarrow> False))"

definition comparable :: "'dt backend \<Rightarrow> 'dt database \<Rightarrow> 'dt request \<Rightarrow> bool" where
  "comparable B db r =
     (case r of
        POST now b \<Rightarrow> (case b of Unreadable \<Rightarrow> True | Parsed data \<Rightarrow> date_agrees B data)
      | GET_all \<Rightarrow> True
      | GET i \<Rightarrow> True
      | PUT i b \<Rightarrow>
          (case select_by_id db i of
             None \<Rightarrow> True
           | Some ev \<Rightarrow>
               not_null ev \<and> round_trips B ev
               \<and> (case b of
                     Unreadable \<Rightarrow> True
                   | Parsed data \<Rightarrow> object_or_empty data \<and> date_agrees B data))
      | DELETE i \<Rightarrow> select_by_id db i \<noteq> None)"

section \<open>A concrete environment\<close>

text \<open>
  An instance of the environment, used to run the views on concrete requests. A
  timestamp is its text \<^verbatim>\<open>YYYY-MM-DD HH:MM:SS\<close>. The database takes a string of that
  form for a \<^verbatim>\<open>DateTime\<close> column, and a date alone with the time \<^verbatim>\<open>00:00:00\<close>, as
  MySQL does; it refuses what it cannot convert and a string longer than the column.
\<close>

definition digit :: "char \<Rightarrow> bool" where
  "digit c = (c \<in> set ''0123456789'')"

definition month_ok :: "char \<Rightarrow> char \<Rightarrow> bool" where
  "month_ok a b =
     ((a = CHR ''0'' \<and> b \<in> set ''123456789'') \<or> (a = CHR ''1'' \<and> b \<in> set ''012''))"

definition day_ok :: "char \<Rightarrow> char \<Rightarrow> bool" where
  "day_ok a b =
     ((a = CHR ''0'' \<and> b \<in> set ''123456789'') \<or> (a \<in> set ''12'' \<and> digit b)
      \<or> (a = CHR ''3'' \<and> b \<in> set ''01''))"

definition hour_ok :: "char \<Rightarrow> char \<Rightarrow> bool" where
  "hour_ok a b = ((a \<in> set ''01'' \<and> digit b) \<or> (a = CHR ''2'' \<and> b \<in> set ''0123''))"

definition sixty_ok :: "char \<Rightarrow> char \<Rightarrow> bool" where
  "sixty_ok a b = (a \<in> set ''012345'' \<and> digit b)"

fun is_date :: "string \<Rightarrow> bool" where
  "is_date [y1, y2, y3, y4, p, m1, m2, q, d1, d2] =
     (digit y1 \<and> digit y2 \<and> digit y3 \<and> digit y4 \<and> p = CHR ''-'' \<and> month_ok m1 m2
      \<and> q = CHR ''-'' \<and> day_ok d1 d2)"
| "is_date s = False"

fun is_time :: "string \<Rightarrow> bool" where
  "is_time [h1, h2, p, m1, m2, q, s1, s2] =
     (hour_ok h1 h2 \<and> p = CHR '':'' \<and> sixty_ok m1 m2 \<and> q = CHR '':'' \<and> sixty_ok s1 s2)"
| "is_time s = False"

definition is_datetime :: "string \<Rightarrow> bool" where
  "is_datetime s =
     (is_date (take 10 s) \<and> take 1 (drop 10 s) = '' '' \<and> is_time (drop 11 s))"

definition strict_varchar :: "string py \<Rightarrow> string option option" where
  "strict_varchar v =
     (case v of
        PNone \<Rightarrow> Some None
      | PStr s \<Rightarrow> if length s \<le> 255 then Some (Some s) else None
      | _ \<Rightarrow> None)"

definition strict_text :: "string py \<Rightarrow> string option option" where
  "strict_text v = (case v of PNone \<Rightarrow> Some None | PStr s \<Rightarrow> Some (Some s) | _ \<Rightarrow> None)"

definition strict_datetime :: "string py \<Rightarrow> string option option" where
  "strict_datetime v =
     (case v of
        PNone \<Rightarrow> Some None
      | PDate d \<Rightarrow> Some (Some d)
      | PStr s \<Rightarrow>
          if is_datetime s then Some (Some s)
          else if is_date s then Some (Some (s @ '' 00:00:00''))
          else None
      | _ \<Rightarrow> None)"

definition class_name :: "exn \<Rightarrow> string" where
  "class_name e =
     (case e of
        TypeError \<Rightarrow> ''TypeError'' | AttributeError \<Rightarrow> ''AttributeError''
      | KeyError \<Rightarrow> ''KeyError'' | ValueError \<Rightarrow> ''ValueError''
      | BadRequest \<Rightarrow> ''BadRequest'' | DatabaseError \<Rightarrow> ''DatabaseError''
      | IntegrityError \<Rightarrow> ''IntegrityError'')"

definition strict_mysql :: "string backend" where
  "strict_mysql =
     \<lparr>strptime = (\<lambda>s. if is_datetime s then Some s else None),
      strftime = (\<lambda>d. d),
      bind_varchar = strict_varchar,
      bind_text = strict_text,
      bind_datetime = strict_datetime,
      exc_text = class_name\<rparr>"

text \<open>The request of the specification's scenario, and the table that holds its event.\<close>

definition launch :: "string py" where
  "launch =
     PDict [(''title'', PStr ''Launch''), (''description'', PStr ''Kickoff''),
            (''event_date'', PStr ''2024-01-01 10:00:00''), (''location'', PStr ''HQ'')]"

definition launch_row :: "string event" where
  "launch_row =
     \<lparr>row_id = 1, title = Some ''Launch'', description = Some ''Kickoff'',
      event_date = Some ''2024-01-01 10:00:00'', location = Some ''HQ'',
      created_at = Some ''2023-12-24 18:30:00''\<rparr>"

definition launch_db :: "string database" where
  "launch_db = \<lparr>events = [launch_row], next_id = 2\<rparr>"

text \<open>
  A second instance, which differs from the first in the year of a date.
  \<^verbatim>\<open>strftime\<close> prints the year without its leading zeros, as \<^verbatim>\<open>%Y\<close> does where Python
  formats with the C library of Linux, and the database reads a year of two digits as
  a year of this century (00 to 69) or of the last (70 to 99), as MySQL does.
\<close>

definition two_digit_year :: "string \<Rightarrow> string" where
  "two_digit_year s =
     (case s of
        [] \<Rightarrow> s
      | c # cs \<Rightarrow> (if c \<in> set ''0123456'' then ''20'' else ''19'') @ s)"

definition short_year_datetime :: "string py \<Rightarrow> string option option" where
  "short_year_datetime v =
     (case v of
        PNone \<Rightarrow> Some None
      | PDate d \<Rightarrow> Some (Some d)
      | PStr s \<Rightarrow>
          if is_datetime s then Some (Some s)
          else if is_datetime (two_digit_year s) then Some (Some (two_digit_year s))
          else None
      | _ \<Rightarrow> None)"

definition short_year_mysql :: "string backend" where
  "short_year_mysql =
     \<lparr>strptime = (\<lambda>s. if is_datetime s then Some s else None),
      strftime = dropWhile (\<lambda>c. c = CHR ''0''),
      bind_varchar = strict_varchar,
      bind_text = strict_text,
      bind_datetime = short_year_datetime,
      exc_text = class_name\<rparr>"

text \<open>A table with an event of the year 24 and a second event.\<close>

definition early_row :: "string event" where
  "early_row =
     \<lparr>row_id = 1, title = Some ''Launch'', description = Some ''Kickoff'',
      event_date = Some ''0024-01-01 10:00:00'', location = Some ''HQ'',
      created_at = Some ''2023-12-24 18:30:00''\<rparr>"

definition early_db :: "string database" where
  "early_db = \<lparr>events = [early_row, launch_row\<lparr>row_id := 2\<rparr>], next_id = 3\<rparr>"

text \<open>The same request with a date alone, and without a location.\<close>

definition date_only :: "string py" where
  "date_only =
     PDict [(''title'', PStr ''Launch''), (''description'', PStr ''Kickoff''),
            (''event_date'', PStr ''2024-01-01''), (''location'', PStr ''HQ'')]"

definition no_location :: "string py" where
  "no_location =
     PDict [(''title'', PStr ''Launch''), (''description'', PStr ''Kickoff''),
            (''event_date'', PStr ''2024-01-01 10:00:00'')]"

definition noon :: string where
  "noon = ''2023-12-24 12:00:00''"

section \<open>Basic facts\<close>

lemma all_in_dict: "all_in fs (PDict kvs) = Inr (set fs \<subseteq> set (map fst kvs))"
  by (induction fs) auto

lemma not_in_filter:
  "all_in (f # fs) data = Inr b \<Longrightarrow>
     not_in gs data = Inr (filter (\<lambda>g. py_in g data = Inr False) gs)"
  by (cases data; induction gs) auto

lemma outcome_simps [simp]:
  "status ((p, c), db, cs) = c"
  "payload ((p, c), db, cs) = p"
  "stored ((p, c), db, cs) = db"
  "calls ((p, c), db, cs) = cs"
  by (simp_all add: status_def payload_def stored_def calls_def)

lemma outcome_json [simp]:
  "status (json_error m c, db, cs) = c"
  "status (json_message m c, db, cs) = c"
  "payload (json_error m c, db, cs) = PDict [(''error'', PStr m)]"
  "payload (json_message m c, db, cs) = PDict [(''message'', PStr m)]"
  "stored (json_error m c, db, cs) = db"
  "stored (json_message m c, db, cs) = db"
  "calls (json_error m c, db, cs) = cs"
  "calls (json_message m c, db, cs) = cs"
  by (simp_all add: json_error_def json_message_def)

lemma select_by_id_Some:
  "select_by_id db i = Some ev \<Longrightarrow> ev \<in> set (events db) \<and> row_id ev = i"
  by (auto simp: select_by_id_def find_Some_iff)

lemma select_by_id_None: "select_by_id db i = None \<longleftrightarrow> \<not> list_ex (\<lambda>r. row_id r = i) (events db)"
  by (auto simp: select_by_id_def find_None_iff list_ex_iff)

lemma events_update_same: "(db\<lparr>events := ys\<rparr> = db) = (ys = events db)"
  by (cases db) auto

lemma map_same: "(map f xs = xs) = (\<forall>x\<in>set xs. f x = x)"
  by (induction xs) auto

lemma db_update_rowcount:
  "db_update B t d e l i db = Inr (n, db') \<Longrightarrow> (n = 0) = (db' = db)"
  by (auto simp: db_update_def events_update_same map_same filter_empty_conv
      split: option.splits if_splits)

subsection \<open>What a view leaves in the table\<close>

lemma create_event_stored:
  "stored (create_event B now req db) = db
   \<or> (\<exists>t d e l i. db_insert B now t d e l db = Inr (i, stored (create_event B now req db)))"
  by (auto simp: create_event_def create_event_try_def rolled_back_def
      split: option.splits body.splits sum.splits prod.splits if_splits)

lemma create_event_mysql_stored:
  "stored (create_event_mysql B now req db) = db
   \<or> (\<exists>t d e l i.
         db_insert B now t d e l db = Inr (i, stored (create_event_mysql B now req db)))"
  by (auto simp: create_event_mysql_def create_event_mysql_try_def rolled_back_def
      split: option.splits body.splits sum.splits prod.splits if_splits)

lemma update_event_stored:
  "stored (update_event B i req db) = db
   \<or> (\<exists>ev t d e l. select_by_id db i = Some ev
         \<and> flush_update B ev t d e l db = Inr (stored (update_event B i req db)))"
  by (auto simp: update_event_def update_event_try_def rolled_back_def
      split: option.splits body.splits sum.splits prod.splits if_splits)

lemma update_event_mysql_stored:
  "stored (update_event_mysql B i req db) = db
   \<or> (\<exists>t d e l n.
         db_update B t d e l i db = Inr (n, stored (update_event_mysql B i req db)))"
  by (auto simp: update_event_mysql_def update_event_mysql_try_def rolled_back_def
      split: option.splits body.splits sum.splits prod.splits if_splits)

lemma delete_event_stored:
  "stored (delete_event B i db) = db \<or> stored (delete_event B i db) = db_delete i db"
  by (auto simp: delete_event_def dest: select_by_id_Some split: option.splits)

lemma delete_event_mysql_stored:
  "stored (delete_event_mysql i db) = db \<or> stored (delete_event_mysql i db) = db_delete i db"
  by (auto simp: delete_event_mysql_def)

section \<open>Ids that match no row\<close>

lemma get_single_event_not_found:
  "select_by_id db event_id = None \<Longrightarrow>
     get_single_event B event_id db = (json_message ''Event not found'' 404, db, [Select]) \<and>
     get_single_event_mysql event_id db = (json_message ''Event not found'' 404, db, [Select])"
  by (simp add: get_single_event_def get_single_event_mysql_def)

lemma update_event_not_found:
  "select_by_id db event_id = None \<Longrightarrow>
     update_event B event_id req db = (json_message ''Event not found'' 404, db, [Select]) \<and>
     update_event_mysql B event_id req db = (json_message ''Event not found'' 404, db, [Select])"
  by (simp add: update_event_def update_event_try_def update_event_mysql_def
      update_event_mysql_try_def rolled_back_def)

lemma delete_event_mysql_not_found:
  "select_by_id db event_id = None \<Longrightarrow>
     delete_event_mysql event_id db = (json_message ''Event not found'' 404, db, [Select])"
  by (simp add: delete_event_mysql_def select_by_id_None)

text \<open>
  C1. An id that matches no row is answered with 404 and a \<^verbatim>\<open>message\<close> by the lookup, the
  update and the raw SQL delete (the three lemmas above). The delete of \<^verbatim>\<open>app.py\<close> answers
  the same request with status 400 and the message \<^verbatim>\<open>event_to_delete\<close>: here on the
  empty table, for the id 1.
\<close>

theorem delete_event_absent_id:
  "delete_event strict_mysql 1 empty_db =
     ((PDict [(''message'', PStr ''event_to_delete'')], 400), empty_db, [Select])"
  by (simp add: delete_event_def select_by_id_def empty_db_def json_message_def)

section \<open>The empty JSON object as the body of an update\<close>




section \<open>A date that does not parse\<close>




section \<open>Missing fields\<close>

text \<open>
  C6, as the code has it. A create request whose body is not empty and lacks one or more
  of the four fields is answered by both variants with status 400, before any storage
  call. The message of \<^verbatim>\<open>app.py\<close> lists exactly the fields that are not in the body, in the
  order title, description, event_date, location; the message of \<^verbatim>\<open>app_mysql.py\<close> is one
  fixed text that names all four fields, whichever is missing.
\<close>

theorem create_event_missing_fields:
  assumes "truthy data" and "all_in required_fields data = Inr False"
  shows "create_event B now (Parsed data) db
           = (json_error (''Missing required fields: ''
                @ join '', '' (filter (\<lambda>f. py_in f data = Inr False) required_fields))
               400, db, [])
       \<and> create_event_mysql B now (Parsed data) db
           = (json_error
                ''Missing required event fields (title, description, event_date, location)''
                400, db, [])"
proof -
  have n: "not_in required_fields data
             = Inr (filter (\<lambda>g. py_in g data = Inr False) required_fields)"
    using assms(2) unfolding required_fields_def by (rule not_in_filter)
  have a: "all_in [''title'', ''description'', ''event_date'', ''location''] data = Inr False"
    using assms(2) by (simp add: required_fields_def)
  have orm: "create_event B now (Parsed data) db
           = (json_error (''Missing required fields: ''
                @ join '', '' (filter (\<lambda>f. py_in f data = Inr False) required_fields))
               400, db, [])"
    using assms by (simp add: create_event_def create_event_try_def rolled_back_def n)
  have raw: "create_event_mysql B now (Parsed data) db
           = (json_error
                ''Missing required event fields (title, description, event_date, location)''
                400, db, [])"
    using assms(1)
    by (simp add: create_event_mysql_def create_event_mysql_try_def rolled_back_def a
        del: all_in.simps)
  show ?thesis using orm raw by simp
qed

theorem create_event_missing_fields_witness:
  "truthy no_location \<and> all_in required_fields no_location = Inr False
   \<and> create_event strict_mysql noon (Parsed no_location) empty_db
        = (json_error ''Missing required fields: location'' 400, empty_db, [])"
proof -
  have t: "truthy no_location"
    by (simp add: no_location_def)
  have a: "all_in required_fields no_location = Inr False"
    by (simp add: no_location_def required_fields_def)
  have f: "filter (\<lambda>f. py_in f no_location = Inr False) required_fields = [''location'']"
    by (simp add: no_location_def required_fields_def)
  show ?thesis
    using t a create_event_missing_fields [OF t a, of strict_mysql noon empty_db]
    by (simp add: f)
qed

text \<open>
  The claim as it is written fails on \<^verbatim>\<open>app_mysql.py\<close>: for the request that lacks only
  \<^verbatim>\<open>location\<close> the message names \<^verbatim>\<open>title\<close>, \<^verbatim>\<open>description\<close> and \<^verbatim>\<open>event_date\<close> as well.
\<close>

theorem create_event_mysql_names_all_fields:
  "create_event_mysql strict_mysql noon (Parsed no_location) empty_db
     = ((PDict [(''error'',
           PStr ''Missing required event fields (title, description, event_date, location)'')],
         400), empty_db, [])"
  by (simp add: create_event_mysql_def create_event_mysql_try_def rolled_back_def
      no_location_def json_error_def)

section \<open>An update that changes nothing\<close>

lemma update_event_mysql_no_change:
  "(payload (update_event_mysql B i req db) = no_change)
     = (status (update_event_mysql B i req db) = 200
        \<and> stored (update_event_mysql B i req db) = db)"
  by (auto simp: update_event_mysql_def update_event_mysql_try_def rolled_back_def
      no_change_def json_error_def json_message_def
      dest: db_update_rowcount
      split: option.splits body.splits sum.splits prod.splits if_splits)

lemma update_event_never_no_change:
  "payload (update_event B i req db) \<noteq> no_change"
  by (auto simp: update_event_def update_event_try_def rolled_back_def no_change_def
      json_error_def json_message_def
      split: option.splits body.splits sum.splits prod.splits if_splits)

text \<open>
  C7, as the code has it. \<^verbatim>\<open>app_mysql.py\<close> answers an update with status 200 and the
  message \<^verbatim>\<open>No changes made ...\<close> alone exactly when the update was accepted and left the
  table as it was; an accepted update that changed the row gets the ordinary success
  answer. \<^verbatim>\<open>app.py\<close> has no such outcome: no answer of its update is that message.
\<close>

theorem update_event_no_change:
  "((payload (update_event_mysql B i req db) = no_change)
      = (status (update_event_mysql B i req db) = 200
         \<and> stored (update_event_mysql B i req db) = db))
   \<and> payload (update_event B i req db) \<noteq> no_change"
  using update_event_mysql_no_change [of B i req db] update_event_never_no_change [of B i req db]
  by blast

theorem update_event_no_change_witness:
  "status (update_event_mysql strict_mysql 1 (Parsed (PDict [(''title'', PStr ''Launch'')]))
      launch_db) = 200
   \<and> stored (update_event_mysql strict_mysql 1 (Parsed (PDict [(''title'', PStr ''Launch'')]))
      launch_db) = launch_db
   \<and> payload (update_event_mysql strict_mysql 1 (Parsed (PDict [(''title'', PStr ''Launch'')]))
      launch_db) = no_change"
proof -
  let ?out = "update_event_mysql strict_mysql 1 (Parsed (PDict [(''title'', PStr ''Launch'')]))
      launch_db"
  have "?out = (json_message
      ''No changes made to event or event not found after initial check'' 200,
      launch_db, [Select, Update, Commit])"
    by (simp add: update_event_mysql_def update_event_mysql_try_def rolled_back_def
        select_by_id_def launch_db_def launch_row_def py_str_def db_update_def
        strict_mysql_def strict_varchar_def strict_text_def strict_datetime_def
        is_datetime_def digit_def month_ok_def day_ok_def hour_ok_def sixty_ok_def
        set_columns_def not_null_def)
  then have "status ?out = 200 \<and> stored ?out = launch_db"
    by simp
  then show ?thesis
    using update_event_no_change [of strict_mysql 1 "Parsed (PDict [(''title'', PStr ''Launch'')])"
        launch_db]
    by blast
qed

text \<open>
  The claim as it is written fails on \<^verbatim>\<open>app.py\<close>: the update that sets the title to the
  title the row has leaves the table as it was and gets the ordinary success answer.
\<close>

theorem update_event_same_title:
  "stored (update_event strict_mysql 1 (Parsed (PDict [(''title'', PStr ''Launch'')])) launch_db)
     = launch_db
   \<and> update_event strict_mysql 1 (Parsed (PDict [(''title'', PStr ''Launch'')])) launch_db
     = ((PDict [(''message'', PStr ''Event updated successfully''),
                (''event_id'', PInt 1),
                (''updated_event'', to_dict strict_mysql launch_row)], 200),
        launch_db, [Select, Commit])"
  by (simp add: update_event_def update_event_try_def rolled_back_def supplied_def
      select_by_id_def launch_db_def launch_row_def flush_update_def
      strict_mysql_def strict_varchar_def set_columns_def)

section \<open>Validation and storage calls\<close>

lemma create_event_400:
  "status (create_event B now req db) = 400 \<Longrightarrow>
     calls (create_event B now req db) = [] \<and> stored (create_event B now req db) = db"
  by (auto simp: create_event_def create_event_try_def rolled_back_def
      split: option.splits body.splits sum.splits prod.splits if_splits)

lemma create_event_mysql_400:
  "status (create_event_mysql B now req db) = 400 \<Longrightarrow>
     calls (create_event_mysql B now req db) = []
     \<and> stored (create_event_mysql B now req db) = db"
  by (auto simp: create_event_mysql_def create_event_mysql_try_def rolled_back_def
      split: option.splits body.splits sum.splits prod.splits if_splits)

lemma update_event_400:
  "status (update_event B i req db) = 400 \<Longrightarrow>
     calls (update_event B i req db) = [Select] \<and> stored (update_event B i req db) = db"
  by (auto simp: update_event_def update_event_try_def rolled_back_def
      split: option.splits body.splits sum.splits prod.splits if_splits)

lemma update_event_mysql_400:
  "status (update_event_mysql B i req db) = 400 \<Longrightarrow>
     calls (update_event_mysql B i req db) = [Select]
     \<and> stored (update_event_mysql B i req db) = db"
  by (auto simp: update_event_mysql_def update_event_mysql_try_def rolled_back_def
      json_error_def json_message_def
      split: option.splits body.splits sum.splits prod.splits if_splits)

text \<open>
  C8, as the code has it. In the create view of both variants an answer with status 400
  comes before any storage call. In the update view of both variants the lookup of the
  row comes first: an answer with status 400 comes after that one read and before any
  write, and the table is as the request found it.
\<close>

theorem validation_before_storage:
  "(status (create_event B now req db) = 400 \<longrightarrow>
      calls (create_event B now req db) = [] \<and> stored (create_event B now req db) = db)
   \<and> (status (create_event_mysql B now req db) = 400 \<longrightarrow>
      calls (create_event_mysql B now req db) = []
      \<and> stored (create_event_mysql B now req db) = db)
   \<and> (status (update_event B i req db) = 400 \<longrightarrow>
      calls (update_event B i req db) = [Select] \<and> stored (update_event B i req db) = db)
   \<and> (status (update_event_mysql B i req db) = 400 \<longrightarrow>
      calls (update_event_mysql B i req db) = [Select]
      \<and> stored (update_event_mysql B i req db) = db)"
  using create_event_400 [of B now req db] create_event_mysql_400 [of B now req db]
    update_event_400 [of B i req db] update_event_mysql_400 [of B i req db]
  by blast

theorem validation_before_storage_witness:
  "status (create_event strict_mysql noon (Parsed no_location) empty_db) = 400
   \<and> calls (create_event strict_mysql noon (Parsed no_location) empty_db) = []
   \<and> status (update_event_mysql strict_mysql 1 (Parsed (PDict [])) launch_db) = 400
   \<and> calls (update_event_mysql strict_mysql 1 (Parsed (PDict [])) launch_db) = [Select]"
proof -
  have a: "status (create_event strict_mysql noon (Parsed no_location) empty_db) = 400"
    by (simp add: create_event_def create_event_try_def rolled_back_def no_location_def
        required_fields_def)
  have b: "status (update_event_mysql strict_mysql 1 (Parsed (PDict [])) launch_db) = 400"
    by (simp add: update_event_mysql_def update_event_mysql_try_def rolled_back_def
        select_by_id_def launch_db_def launch_row_def)
  show ?thesis
    using a b
      validation_before_storage [of strict_mysql noon "Parsed no_location" empty_db 1]
      validation_before_storage [of strict_mysql noon "Parsed (PDict [])" launch_db 1]
    by blast
qed

text \<open>
  The claim as it is written fails on the update view: the request with no body for the
  id of a stored event is answered with status 400 after a read of the table.
\<close>

theorem update_event_reads_first:
  "status (update_event strict_mysql 1 (Parsed PNone) launch_db) = 400
   \<and> calls (update_event strict_mysql 1 (Parsed PNone) launch_db) = [Select]"
  by (simp add: update_event_def update_event_try_def rolled_back_def
      select_by_id_def launch_db_def launch_row_def)

section \<open>The columns that are never \<^verbatim>\<open>NULL\<close>\<close>

lemma db_insert_not_null:
  "db_insert B now t d e l db = Inr (i, db') \<Longrightarrow> list_all not_null (events db)
     \<Longrightarrow> list_all not_null (events db')"
  by (auto simp: db_insert_def Let_def split: option.splits if_splits)

lemma db_update_not_null:
  "db_update B t d e l i db = Inr (n, db') \<Longrightarrow> list_all not_null (events db)
     \<Longrightarrow> list_all not_null (events db')"
  by (auto simp: db_update_def list_all_iff list_ex_iff set_columns_def
      split: option.splits if_splits)

lemma flush_update_not_null:
  "flush_update B ev t d e l db = Inr db' \<Longrightarrow> ev \<in> set (events db)
     \<Longrightarrow> list_all not_null (events db) \<Longrightarrow> list_all not_null (events db')"
  by (auto simp: flush_update_def list_all_iff set_columns_def not_null_def
      split: option.splits if_splits)

lemma db_delete_not_null:
  "list_all not_null (events db) \<Longrightarrow> list_all not_null (events (db_delete i db))"
  by (auto simp: db_delete_def list_all_iff)

lemma handle_not_null:
  assumes "list_all not_null (events db)"
  shows "list_all not_null (events (stored (handle B r db)))"
proof (cases r)
  case (POST now b)
  then show ?thesis
    using assms create_event_stored [of B now b db]
    by (auto simp: handle_def dest: db_insert_not_null)
next
  case GET_all
  then show ?thesis
    using assms by (simp add: handle_def get_all_events_def)
next
  case (GET i)
  then show ?thesis
    using assms by (simp add: handle_def get_single_event_def split: option.splits)
next
  case (PUT i b)
  then show ?thesis
    using assms update_event_stored [of B i b db]
    by (auto simp: handle_def dest: flush_update_not_null select_by_id_Some)
next
  case (DELETE i)
  then show ?thesis
    using assms delete_event_stored [of B i db]
    by (auto simp: handle_def dest: db_delete_not_null)
qed

lemma handle_mysql_not_null:
  assumes "list_all not_null (events db)"
  shows "list_all not_null (events (stored (handle_mysql B r db)))"
proof (cases r)
  case (POST now b)
  then show ?thesis
    using assms create_event_mysql_stored [of B now b db]
    by (auto simp: handle_mysql_def dest: db_insert_not_null)
next
  case GET_all
  then show ?thesis
    using assms by (simp add: handle_mysql_def get_all_events_mysql_def)
next
  case (GET i)
  then show ?thesis
    using assms
    by (simp add: handle_mysql_def get_single_event_mysql_def split: option.splits)
next
  case (PUT i b)
  then show ?thesis
    using assms update_event_mysql_stored [of B i b db]
    by (auto simp: handle_mysql_def dest: db_update_not_null)
next
  case (DELETE i)
  then show ?thesis
    using assms delete_event_mysql_stored [of i db]
    by (auto simp: handle_mysql_def dest: db_delete_not_null)
qed

lemma run_not_null:
  "list_all not_null (events db) \<Longrightarrow> list_all not_null (events (run B rs db))"
  by (induction rs arbitrary: db) (auto intro: handle_not_null)

lemma run_mysql_not_null:
  "list_all not_null (events db) \<Longrightarrow> list_all not_null (events (run_mysql B rs db))"
  by (induction rs arbitrary: db) (auto intro: handle_mysql_not_null)

text \<open>
  C9. Every row of the table has a title, an event date and a location that are not
  \<^verbatim>\<open>NULL\<close>: each request of either variant keeps that true of the table, and it is
  true of the table that any list of requests leaves, starting from the empty table.
\<close>

theorem rows_not_null:
  "(list_all not_null (events db) \<longrightarrow>
      list_all not_null (events (stored (handle B r db)))
      \<and> list_all not_null (events (stored (handle_mysql B r db))))
   \<and> list_all not_null (events (run B rs empty_db))
   \<and> list_all not_null (events (run_mysql B rs empty_db))"
proof -
  have e: "list_all not_null (events (empty_db :: 'a database))"
    by (simp add: empty_db_def)
  show ?thesis
    using handle_not_null [of db B r] handle_mysql_not_null [of db B r]
      run_not_null [OF e, of B rs] run_mysql_not_null [OF e, of B rs]
    by blast
qed

theorem rows_not_null_witness:
  "list_all not_null (events launch_db)
   \<and> list_all not_null (events (stored (handle strict_mysql
        (PUT 1 (Parsed (PDict [(''title'', PNone)]))) launch_db)))
   \<and> list_all not_null (events (run_mysql strict_mysql
        [POST noon (Parsed launch), PUT 1 (Parsed (PDict [(''location'', PNone)])), DELETE 2]
        empty_db))"
proof -
  have a: "list_all not_null (events launch_db)"
    by (simp add: launch_db_def launch_row_def not_null_def)
  show ?thesis
    using a
      rows_not_null [of launch_db strict_mysql "PUT 1 (Parsed (PDict [(''title'', PNone)]))"
        "[POST noon (Parsed launch), PUT 1 (Parsed (PDict [(''location'', PNone)])), DELETE 2]"]
    by blast
qed

section \<open>The fields an update does not carry\<close>

lemma find_map_row_id:
  "(\<And>r. row_id (f r) = row_id r) \<Longrightarrow>
     find (\<lambda>r. row_id r = i) (map f xs) = map_option f (find (\<lambda>r. row_id r = i) xs)"
  by (induction xs) auto

lemma select_by_id_set_columns:
  "select_by_id (db\<lparr>events := map (set_columns t d e l i) (events db)\<rparr>) j
     = map_option (set_columns t d e l i) (select_by_id db j)"
  by (simp add: select_by_id_def find_map_row_id set_columns_def)

lemma supplied_not_sent:
  "\<not> sent (Parsed data) k \<Longrightarrow> supplied data k = Inr v \<Longrightarrow> v = None"
  by (auto simp: sent_def supplied_def split: sum.splits if_splits)

lemma py_get_not_sent:
  "\<not> sent (Parsed data) k \<Longrightarrow> py_get data k dflt = Inr v \<Longrightarrow> v = dflt"
  by (cases data) (force simp: sent_def image_iff dest!: map_of_SomeD split: option.splits)+

lemma flush_update_row:
  "flush_update B ev t d e l db = Inr db' \<Longrightarrow> select_by_id db i = Some ev \<Longrightarrow>
     \<exists>ev'. select_by_id db' i = Some ev' \<and> row_id ev' = row_id ev
        \<and> created_at ev' = created_at ev
        \<and> (t = None \<longrightarrow> title ev' = title ev)
        \<and> (d = None \<longrightarrow> description ev' = description ev)
        \<and> (e = None \<longrightarrow> event_date ev' = event_date ev)
        \<and> (l = None \<longrightarrow> location ev' = location ev)"
  by (frule select_by_id_Some)
     (auto simp: flush_update_def select_by_id_set_columns set_columns_def
      split: option.splits if_splits)

lemma db_update_row:
  "db_update B t d e l i db = Inr (n, db') \<Longrightarrow> select_by_id db i = Some ev \<Longrightarrow>
     \<exists>t' d' e' l'. bind_varchar B t = Some t' \<and> bind_text B d = Some d'
        \<and> bind_datetime B e = Some e' \<and> bind_varchar B l = Some l'
        \<and> select_by_id db' i
             = Some (ev\<lparr>title := t', description := d', event_date := e', location := l'\<rparr>)"
  by (frule select_by_id_Some)
     (auto simp: db_update_def select_by_id_set_columns set_columns_def
      split: option.splits if_splits)

lemma update_event_result:
  assumes "select_by_id db i = Some ev" and "update_event B i req db = out"
  shows "(stored out = db \<and> field (payload out) ''updated_event'' = None)
       \<or> (\<exists>t d e l ev'.
            flush_update B ev t d e l db = Inr (stored out)
            \<and> select_by_id (stored out) i = Some ev'
            \<and> field (payload out) ''updated_event'' = Some (to_dict B ev')
            \<and> (\<not> sent req ''title'' \<longrightarrow> t = None)
            \<and> (\<not> sent req ''description'' \<longrightarrow> d = None)
            \<and> (\<not> sent req ''event_date'' \<longrightarrow> e = None)
            \<and> (\<not> sent req ''location'' \<longrightarrow> l = None))"
  using assms
  apply (auto simp: update_event_def update_event_try_def rolled_back_def field_def
      json_error_def json_message_def
      split: option.splits body.splits sum.splits prod.splits if_splits)
     apply (metis supplied_not_sent option.distinct(1))+
  done

lemma update_event_mysql_result:
  assumes "select_by_id db i = Some ev" and "update_event_mysql B i req db = out"
  shows "(stored out = db \<and> field (payload out) ''updated_event'' = None)
       \<or> (\<exists>t d e l n sd.
            event_date ev = Some sd
            \<and> db_update B t d e l i db = Inr (n, stored out)
            \<and> (\<forall>rec. field (payload out) ''updated_event'' = Some rec \<longrightarrow>
                  rec = PDict [(''title'', t), (''description'', d),
                               (''event_date'', e), (''location'', l)])
            \<and> (\<not> sent req ''title'' \<longrightarrow> t = py_str (title ev))
            \<and> (\<not> sent req ''description'' \<longrightarrow> d = py_str (description ev))
            \<and> (\<not> sent req ''event_date'' \<longrightarrow> e = PStr (strftime B sd))
            \<and> (\<not> sent req ''location'' \<longrightarrow> l = py_str (location ev)))"
  using assms
  apply (auto simp: update_event_mysql_def update_event_mysql_try_def rolled_back_def field_def
      json_error_def json_message_def
      split: option.splits body.splits sum.splits prod.splits if_splits)
     apply (metis py_get_not_sent)+
  done


lemma field_to_dict:
  "field (to_dict B r) ''title'' = Some (py_str (title r))"
  "field (to_dict B r) ''description'' = Some (py_str (description r))"
  "field (to_dict B r) ''event_date''
     = Some (case event_date r of None \<Rightarrow> PNone | Some d \<Rightarrow> PStr (strftime B d))"
  "field (to_dict B r) ''location'' = Some (py_str (location r))"
  by (simp_all add: field_def to_dict_def)

lemma update_event_keeps:
  assumes "select_by_id db i = Some ev"
  shows "(\<exists>ev'. select_by_id (stored (update_event B i req db)) i = Some ev'
            \<and> omitted_kept req ev ev')
       \<and> (\<forall>rec. field (payload (update_event B i req db)) ''updated_event'' = Some rec
            \<longrightarrow> omitted_returned B req ev rec)"
  using update_event_result [OF assms refl, of B req]
proof (elim disjE conjE exE)
  assume "stored (update_event B i req db) = db"
    and "field (payload (update_event B i req db)) ''updated_event'' = None"
  then show ?thesis
    using assms by (simp add: omitted_kept_def)
next
  fix t d e l ev'
  assume f: "flush_update B ev t d e l db = Inr (stored (update_event B i req db))"
    and s: "select_by_id (stored (update_event B i req db)) i = Some ev'"
    and p: "field (payload (update_event B i req db)) ''updated_event'' = Some (to_dict B ev')"
    and o: "\<not> sent req ''title'' \<longrightarrow> t = None" "\<not> sent req ''description'' \<longrightarrow> d = None"
      "\<not> sent req ''event_date'' \<longrightarrow> e = None" "\<not> sent req ''location'' \<longrightarrow> l = None"
  from flush_update_row [OF f assms] s o
  have k: "omitted_kept req ev ev'"
    by (auto simp: omitted_kept_def)
  then have "omitted_returned B req ev (to_dict B ev')"
    by (auto simp: omitted_kept_def omitted_returned_def required_fields_def field_to_dict)
  with k s p show ?thesis
    by simp
qed

lemma update_event_mysql_returned:
  assumes "select_by_id db i = Some ev"
  shows "\<forall>rec. field (payload (update_event_mysql B i req db)) ''updated_event'' = Some rec
            \<longrightarrow> omitted_returned B req ev rec"
  using update_event_mysql_result [OF assms refl, of B req]
proof (elim disjE conjE exE)
  assume "field (payload (update_event_mysql B i req db)) ''updated_event'' = None"
  then show ?thesis
    by simp
next
  fix t d e l n sd
  assume sd: "event_date ev = Some sd"
    and p: "\<forall>rec. field (payload (update_event_mysql B i req db)) ''updated_event'' = Some rec
              \<longrightarrow> rec = PDict [(''title'', t), (''description'', d),
                                 (''event_date'', e), (''location'', l)]"
    and o: "\<not> sent req ''title'' \<longrightarrow> t = py_str (title ev)"
      "\<not> sent req ''description'' \<longrightarrow> d = py_str (description ev)"
      "\<not> sent req ''event_date'' \<longrightarrow> e = PStr (strftime B sd)"
      "\<not> sent req ''location'' \<longrightarrow> l = py_str (location ev)"
  have r: "omitted_returned B req ev
             (PDict [(''title'', t), (''description'', d),
                     (''event_date'', e), (''location'', l)])"
    using sd o
    by (auto simp: omitted_returned_def required_fields_def field_to_dict)
       (simp_all add: field_def)
  from r p show ?thesis
    by auto
qed

lemma update_event_mysql_keeps:
  assumes "select_by_id db i = Some ev" and "round_trips B ev"
  shows "\<exists>ev'. select_by_id (stored (update_event_mysql B i req db)) i = Some ev'
            \<and> omitted_kept req ev ev'"
  using update_event_mysql_result [OF assms(1) refl, of B req]
proof (elim disjE conjE exE)
  assume "stored (update_event_mysql B i req db) = db"
  then show ?thesis
    using assms by (simp add: omitted_kept_def)
next
  fix t d e l n sd
  assume sd: "event_date ev = Some sd"
    and u: "db_update B t d e l i db = Inr (n, stored (update_event_mysql B i req db))"
    and o: "\<not> sent req ''title'' \<longrightarrow> t = py_str (title ev)"
      "\<not> sent req ''description'' \<longrightarrow> d = py_str (description ev)"
      "\<not> sent req ''event_date'' \<longrightarrow> e = PStr (strftime B sd)"
      "\<not> sent req ''location'' \<longrightarrow> l = py_str (location ev)"
  from db_update_row [OF u assms(1)]
  obtain t' d' e' l' where b:
    "bind_varchar B t = Some t'" "bind_text B d = Some d'"
    "bind_datetime B e = Some e'" "bind_varchar B l = Some l'"
    "select_by_id (stored (update_event_mysql B i req db)) i
       = Some (ev\<lparr>title := t', description := d', event_date := e', location := l'\<rparr>)"
    by blast
  have k: "omitted_kept req ev
             (ev\<lparr>title := t', description := d', event_date := e', location := l'\<rparr>)"
    using assms(2) sd o b(1-4)
    by (auto simp: omitted_kept_def round_trips_def)
  from k b(5) show ?thesis
    by auto
qed

subsection \<open>The other rows\<close>

lemma filter_set_columns:
  "filter (\<lambda>r. row_id r \<noteq> i) (map (set_columns t d e l i) xs)
     = filter (\<lambda>r. row_id r \<noteq> i) xs"
  by (induction xs) (auto simp: set_columns_def)

lemma flush_update_others:
  "flush_update B ev t d e l db = Inr db' \<Longrightarrow> select_by_id db i = Some ev \<Longrightarrow>
     filter (\<lambda>r. row_id r \<noteq> i) (events db') = filter (\<lambda>r. row_id r \<noteq> i) (events db)
     \<and> length (events db') = length (events db) \<and> next_id db' = next_id db"
  by (frule select_by_id_Some)
     (auto simp: flush_update_def filter_set_columns split: option.splits if_splits)

lemma db_update_others:
  "db_update B t d e l i db = Inr (n, db') \<Longrightarrow>
     filter (\<lambda>r. row_id r \<noteq> i) (events db') = filter (\<lambda>r. row_id r \<noteq> i) (events db)
     \<and> length (events db') = length (events db) \<and> next_id db' = next_id db"
  by (auto simp: db_update_def filter_set_columns split: option.splits if_splits)

lemma update_event_others:
  "filter (\<lambda>r. row_id r \<noteq> i) (events (stored (update_event B i req db)))
     = filter (\<lambda>r. row_id r \<noteq> i) (events db)
   \<and> length (events (stored (update_event B i req db))) = length (events db)
   \<and> next_id (stored (update_event B i req db)) = next_id db"
  using update_event_stored [of B i req db]
  by (auto dest: flush_update_others)

lemma update_event_mysql_others:
  "filter (\<lambda>r. row_id r \<noteq> i) (events (stored (update_event_mysql B i req db)))
     = filter (\<lambda>r. row_id r \<noteq> i) (events db)
   \<and> length (events (stored (update_event_mysql B i req db))) = length (events db)
   \<and> next_id (stored (update_event_mysql B i req db)) = next_id db"
  using update_event_mysql_stored [of B i req db]
  by (auto dest: db_update_others)

text \<open>
  C5, as the code has it. For an id that matches a row, an update by \<^verbatim>\<open>app.py\<close> leaves a
  row under that id whose key, creation time and every field that the body does not
  carry are those of the row before, and in the record it returns those fields have the
  values of the row before. \<^verbatim>\<open>app_mysql.py\<close> writes all four columns again, the omitted
  ones from the row it read: in the record it returns, the fields that the body does
  not carry have the values of the row before; in the table they keep their values if
  the database stores the values of that row as they are when they are bound again,
  the date after it was formatted. In both variants the rows of the other ids, the
  number of rows and the counter are as before.
\<close>

theorem update_event_keeps_omitted:
  assumes "select_by_id db i = Some ev"
  shows "(\<exists>ev'. select_by_id (stored (update_event B i req db)) i = Some ev'
            \<and> omitted_kept req ev ev')
       \<and> (\<forall>rec. field (payload (update_event B i req db)) ''updated_event'' = Some rec
            \<longrightarrow> omitted_returned B req ev rec)
       \<and> (round_trips B ev \<longrightarrow>
            (\<exists>ev'. select_by_id (stored (update_event_mysql B i req db)) i = Some ev'
               \<and> omitted_kept req ev ev'))
       \<and> (\<forall>rec. field (payload (update_event_mysql B i req db)) ''updated_event'' = Some rec
            \<longrightarrow> omitted_returned B req ev rec)
       \<and> filter (\<lambda>r. row_id r \<noteq> i) (events (stored (update_event B i req db)))
            = filter (\<lambda>r. row_id r \<noteq> i) (events db)
       \<and> length (events (stored (update_event B i req db))) = length (events db)
       \<and> next_id (stored (update_event B i req db)) = next_id db
       \<and> filter (\<lambda>r. row_id r \<noteq> i) (events (stored (update_event_mysql B i req db)))
            = filter (\<lambda>r. row_id r \<noteq> i) (events db)
       \<and> length (events (stored (update_event_mysql B i req db))) = length (events db)
       \<and> next_id (stored (update_event_mysql B i req db)) = next_id db"
  using update_event_keeps [OF assms, of B req]
    update_event_mysql_keeps [OF assms, of B req]
    update_event_mysql_returned [OF assms, of B req]
    update_event_others [of i B req db] update_event_mysql_others [of i B req db]
  by blast

theorem update_event_keeps_omitted_witness:
  "select_by_id launch_db 1 = Some launch_row
   \<and> round_trips strict_mysql launch_row
   \<and> (\<exists>ev'. select_by_id (stored (update_event_mysql strict_mysql 1
                (Parsed (PDict [(''title'', PStr ''Lunch'')])) launch_db)) 1 = Some ev'
          \<and> omitted_kept (Parsed (PDict [(''title'', PStr ''Lunch'')])) launch_row ev')
   \<and> (\<exists>ev'. select_by_id (stored (update_event strict_mysql 1
                (Parsed (PDict [(''title'', PStr ''Lunch'')])) launch_db)) 1 = Some ev'
          \<and> omitted_kept (Parsed (PDict [(''title'', PStr ''Lunch'')])) launch_row ev')"
proof -
  have h: "select_by_id launch_db 1 = Some launch_row"
    by (simp add: select_by_id_def launch_db_def launch_row_def)
  have r: "round_trips strict_mysql launch_row"
    by (simp add: round_trips_def launch_row_def py_str_def strict_mysql_def
        strict_varchar_def strict_text_def strict_datetime_def is_datetime_def
        digit_def month_ok_def day_ok_def hour_ok_def sixty_ok_def)
  show ?thesis
    using h r
      update_event_keeps_omitted [OF h, of strict_mysql
        "Parsed (PDict [(''title'', PStr ''Lunch'')])"]
    by blast
qed

text \<open>
  The claim as it is written fails on \<^verbatim>\<open>app_mysql.py\<close>: the update that carries only a
  title is answered with 200, and the date of the event, of the year 24, is in the
  table as a date of the year 2024.
\<close>

theorem update_event_mysql_changes_date:
  "select_by_id early_db 1 = Some early_row
   \<and> event_date early_row = Some ''0024-01-01 10:00:00''
   \<and> \<not> sent (Parsed (PDict [(''title'', PStr ''Lunch'')])) ''event_date''
   \<and> status (update_event_mysql short_year_mysql 1
        (Parsed (PDict [(''title'', PStr ''Lunch'')])) early_db) = 200
   \<and> select_by_id (stored (update_event_mysql short_year_mysql 1
        (Parsed (PDict [(''title'', PStr ''Lunch'')])) early_db)) 1
      = Some (early_row\<lparr>title := Some ''Lunch'',
                         event_date := Some ''2024-01-01 10:00:00''\<rparr>)"
  by (simp add: update_event_mysql_def update_event_mysql_try_def rolled_back_def
      select_by_id_def early_db_def early_row_def launch_row_def py_str_def db_update_def
      short_year_mysql_def short_year_datetime_def two_digit_year_def strict_varchar_def
      strict_text_def is_datetime_def digit_def month_ok_def day_ok_def hour_ok_def
      sixty_ok_def set_columns_def not_null_def sent_def)

section \<open>Reading back a created event\<close>

lemma find_snoc:
  "find P (xs @ [r]) = (case find P xs of None \<Rightarrow> (if P r then Some r else None) | Some x \<Rightarrow> Some x)"
  by (induction xs) auto


lemma db_insert_found:
  "db_insert B now t d e l db = Inr (i, db') \<Longrightarrow> select_by_id db' i \<noteq> None"
  by (auto simp: db_insert_def Let_def select_by_id_def find_snoc
      split: option.splits if_splits)





subsection \<open>The keys stay below the counter\<close>

lemma row_id_set_columns: "row_id (set_columns t d e l i r) = row_id r"
  by (simp add: set_columns_def)

lemma db_insert_keys_ok:
  "db_insert B now t d e l db = Inr (i, db') \<Longrightarrow> keys_ok db \<Longrightarrow> keys_ok db'"
  by (fastforce simp: db_insert_def Let_def keys_ok_def list_all_iff
      split: option.splits if_splits)

lemma db_update_keys_ok:
  "db_update B t d e l i db = Inr (n, db') \<Longrightarrow> keys_ok db \<Longrightarrow> keys_ok db'"
  by (auto simp: db_update_def keys_ok_def list_all_iff row_id_set_columns
      split: option.splits if_splits)

lemma flush_update_keys_ok:
  "flush_update B ev t d e l db = Inr db' \<Longrightarrow> keys_ok db \<Longrightarrow> keys_ok db'"
  by (auto simp: flush_update_def keys_ok_def list_all_iff row_id_set_columns
      split: option.splits if_splits)

lemma db_delete_keys_ok: "keys_ok db \<Longrightarrow> keys_ok (db_delete i db)"
  by (auto simp: db_delete_def keys_ok_def list_all_iff)

lemma handle_keys_ok:
  assumes "keys_ok db"
  shows "keys_ok (stored (handle B r db))"
proof (cases r)
  case (POST now b)
  then show ?thesis
    using assms create_event_stored [of B now b db]
    by (auto simp: handle_def dest: db_insert_keys_ok)
next
  case GET_all
  then show ?thesis
    using assms by (simp add: handle_def get_all_events_def)
next
  case (GET i)
  then show ?thesis
    using assms by (simp add: handle_def get_single_event_def split: option.splits)
next
  case (PUT i b)
  then show ?thesis
    using assms update_event_stored [of B i b db]
    by (auto simp: handle_def dest: flush_update_keys_ok)
next
  case (DELETE i)
  then show ?thesis
    using assms delete_event_stored [of B i db]
    by (auto simp: handle_def dest: db_delete_keys_ok)
qed

lemma handle_mysql_keys_ok:
  assumes "keys_ok db"
  shows "keys_ok (stored (handle_mysql B r db))"
proof (cases r)
  case (POST now b)
  then show ?thesis
    using assms create_event_mysql_stored [of B now b db]
    by (auto simp: handle_mysql_def dest: db_insert_keys_ok)
next
  case GET_all
  then show ?thesis
    using assms by (simp add: handle_mysql_def get_all_events_mysql_def)
next
  case (GET i)
  then show ?thesis
    using assms
    by (simp add: handle_mysql_def get_single_event_mysql_def split: option.splits)
next
  case (PUT i b)
  then show ?thesis
    using assms update_event_mysql_stored [of B i b db]
    by (auto simp: handle_mysql_def dest: db_update_keys_ok)
next
  case (DELETE i)
  then show ?thesis
    using assms delete_event_mysql_stored [of i db]
    by (auto simp: handle_mysql_def dest: db_delete_keys_ok)
qed

lemma run_keys_ok: "keys_ok db \<Longrightarrow> keys_ok (run B rs db)"
  by (induction rs arbitrary: db) (auto intro: handle_keys_ok)

lemma run_mysql_keys_ok: "keys_ok db \<Longrightarrow> keys_ok (run_mysql B rs db)"
  by (induction rs arbitrary: db) (auto intro: handle_mysql_keys_ok)

lemma keys_ok_empty_db: "keys_ok empty_db"
  by (simp add: keys_ok_def empty_db_def)




section \<open>The two variants side by side\<close>

lemma db_insert_datetime:
  "bind_datetime B e = bind_datetime B e' \<Longrightarrow>
     db_insert B now t d e l db = db_insert B now t d e' l db"
  by (auto simp: db_insert_def split: option.splits)

lemma supplied_dict: "supplied (PDict kvs) k = Inr (map_of kvs k)"
proof (cases "map_of kvs k")
  case None
  then have "k \<notin> set (map fst kvs)"
    by (simp add: map_of_eq_None_iff)
  with None show ?thesis
    by (simp add: supplied_def)
next
  case (Some v)
  then have "k \<in> set (map fst kvs)"
    by (metis map_of_eq_None_iff option.distinct(1) set_map)
  with Some show ?thesis
    by (simp add: supplied_def)
qed

lemma flush_vs_update:
  assumes "select_by_id db i = Some ev" and "not_null ev" and "round_trips B ev"
    and "event_date ev = Some sd"
    and "bind_datetime B em
           = (case e of None \<Rightarrow> Some (Some sd) | Some p \<Rightarrow> bind_datetime B (PDate p))"
  shows "case flush_update B ev t d e l db of
           Inl x \<Rightarrow>
             (\<exists>y. db_update B (case t of None \<Rightarrow> py_str (title ev) | Some v \<Rightarrow> v)
                    (case d of None \<Rightarrow> py_str (description ev) | Some v \<Rightarrow> v) em
                    (case l of None \<Rightarrow> py_str (location ev) | Some v \<Rightarrow> v) i db = Inl y)
         | Inr db' \<Rightarrow>
             (\<exists>n. db_update B (case t of None \<Rightarrow> py_str (title ev) | Some v \<Rightarrow> v)
                    (case d of None \<Rightarrow> py_str (description ev) | Some v \<Rightarrow> v) em
                    (case l of None \<Rightarrow> py_str (location ev) | Some v \<Rightarrow> v) i db
                  = Inr (n, db'))"
proof -
  from select_by_id_Some [OF assms(1)] have m: "ev \<in> set (events db)" "row_id ev = i"
    by simp_all
  have nn: "\<And>t' d' e' l'.
      list_ex (\<lambda>r. row_id r = i \<and> \<not> not_null (set_columns t' d' e' l' i r)) (events db)
        = (t' = None \<or> e' = None \<or> l' = None)"
    using m by (auto simp: list_ex_iff set_columns_def not_null_def)
  from assms(2) obtain ty ly where nz: "title ev = Some ty" "location ev = Some ly"
    by (auto simp: not_null_def)
  from assms(3) have rt:
    "bind_varchar B (py_str (title ev)) = Some (title ev)"
    "bind_text B (py_str (description ev)) = Some (description ev)"
    "bind_varchar B (py_str (location ev)) = Some (location ev)"
    by (simp_all add: round_trips_def)
  show ?thesis
    using assms(4,5) m(2) nz
    by (cases t; cases d; cases e; cases l)
       (auto simp: flush_update_def db_update_def nn rt rt [unfolded nz] split: option.splits)
qed


lemma status_rolled_back_Inl [simp]:
  "status (rolled_back B db (Inl x)) = 500" "stored (rolled_back B db (Inl x)) = db"
  by (cases x, simp add: rolled_back_def)+

lemma rolled_back_Inr [simp]: "rolled_back B db (Inr out) = out"
  by (simp add: rolled_back_def)

lemma create_agree_dict:
  assumes "date_agrees B (PDict kvs)"
  shows "status (create_event B now (Parsed (PDict kvs)) db)
           = status (create_event_mysql B now (Parsed (PDict kvs)) db)
       \<and> stored (create_event B now (Parsed (PDict kvs)) db)
           = stored (create_event_mysql B now (Parsed (PDict kvs)) db)"
proof (cases "set required_fields \<subseteq> set (map fst kvs)")
  case False
  then have a: "all_in required_fields (PDict kvs) = Inr False"
    by (simp add: all_in_dict)
  then have n: "not_in required_fields (PDict kvs)
      = Inr (filter (\<lambda>g. py_in g (PDict kvs) = Inr False) required_fields)"
    unfolding required_fields_def by (rule not_in_filter)
  from a have a': "all_in [''title'', ''description'', ''event_date'', ''location''] (PDict kvs)
      = Inr False"
    by (simp add: required_fields_def)
  show ?thesis
    by (simp add: create_event_def create_event_try_def create_event_mysql_def
        create_event_mysql_try_def a a' n del: all_in.simps not_in.simps)
next
  case True
  then have a: "all_in required_fields (PDict kvs) = Inr True"
    by (simp add: all_in_dict)
  then have a': "all_in [''title'', ''description'', ''event_date'', ''location''] (PDict kvs)
      = Inr True"
    by (simp add: required_fields_def)
  from True have "map_of kvs ''title'' \<noteq> None" "map_of kvs ''description'' \<noteq> None"
    "map_of kvs ''event_date'' \<noteq> None" "map_of kvs ''location'' \<noteq> None"
    by (auto simp: map_of_eq_None_iff required_fields_def)
  then obtain t d v l where k: "map_of kvs ''title'' = Some t"
    "map_of kvs ''description'' = Some d" "map_of kvs ''event_date'' = Some v"
    "map_of kvs ''location'' = Some l"
    by auto
  from assms k(3) obtain s p where v: "v = PStr s" "strptime B s = Some p"
    "bind_datetime B (PStr s) = bind_datetime B (PDate p)"
    by (auto simp: date_agrees_def split: py.splits option.splits)
  from k have ne: "kvs \<noteq> []"
    by auto
  have i: "db_insert B now t d (PDate p) l db = db_insert B now t d (PStr s) l db"
    using v(3) [symmetric] by (rule db_insert_datetime)
  show ?thesis
  proof (cases "db_insert B now t d (PStr s) l db")
    case (Inl x)
    then show ?thesis
      using ne k v i
      by (simp add: create_event_def create_event_try_def create_event_mysql_def
          create_event_mysql_try_def a a' py_strptime_def del: all_in.simps)
  next
    case (Inr r)
    obtain j db' where r: "r = (j, db')"
      by (cases r)
    from Inr r db_insert_found [of B now t d "PStr s" l db j db']
    obtain ev where f: "select_by_id db' j = Some ev"
      by auto
    show ?thesis
      using ne k v i Inr r f
      by (simp add: create_event_def create_event_try_def create_event_mysql_def
          create_event_mysql_try_def a a' py_strptime_def del: all_in.simps)
  qed
qed

lemma create_agree_other:
  assumes "\<And>kvs. data \<noteq> PDict kvs"
  shows "status (create_event B now (Parsed data) db)
           = status (create_event_mysql B now (Parsed data) db)
       \<and> stored (create_event B now (Parsed data) db)
           = stored (create_event_mysql B now (Parsed data) db)"
proof -
  have g: "\<And>k. py_getitem data k = Inl TypeError"
    "\<And>k v. py_get data k v = Inl AttributeError"
    using assms by (cases data; simp)+
  show ?thesis
  proof (cases "all_in required_fields data")
    case (Inl x)
    then have "all_in [''title'', ''description'', ''event_date'', ''location''] data = Inl x"
      by (simp add: required_fields_def)
    with Inl show ?thesis
      by (simp add: create_event_def create_event_try_def create_event_mysql_def
          create_event_mysql_try_def del: all_in.simps)
  next
    case (Inr b)
    then have a': "all_in [''title'', ''description'', ''event_date'', ''location''] data = Inr b"
      by (simp add: required_fields_def)
    from Inr have n: "not_in required_fields data
      = Inr (filter (\<lambda>g. py_in g data = Inr False) required_fields)"
      unfolding required_fields_def by (rule not_in_filter)
    show ?thesis
      by (simp add: create_event_def create_event_try_def create_event_mysql_def
          create_event_mysql_try_def Inr a' n g del: all_in.simps not_in.simps)
  qed
qed

lemma create_agree:
  assumes "date_agrees B data"
  shows "status (create_event B now (Parsed data) db)
           = status (create_event_mysql B now (Parsed data) db)
       \<and> stored (create_event B now (Parsed data) db)
           = stored (create_event_mysql B now (Parsed data) db)"
proof (cases "\<exists>kvs. data = PDict kvs")
  case True
  then obtain kvs where "data = PDict kvs"
    by blast
  with assms create_agree_dict [of B kvs now db] show ?thesis
    by simp
next
  case False
  then show ?thesis
    using create_agree_other [of data] by blast
qed

lemma update_agree_dict:
  assumes "select_by_id db i = Some ev" and "not_null ev" and "round_trips B ev"
    and "kvs \<noteq> []" and "date_agrees B (PDict kvs)"
  shows "status (update_event B i (Parsed (PDict kvs)) db)
           = status (update_event_mysql B i (Parsed (PDict kvs)) db)
       \<and> stored (update_event B i (Parsed (PDict kvs)) db)
           = stored (update_event_mysql B i (Parsed (PDict kvs)) db)"
proof -
  from assms(2) obtain sd where sd: "event_date ev = Some sd"
    by (auto simp: not_null_def)
  define t where "t = map_of kvs ''title''"
  define d where "d = map_of kvs ''description''"
  define l where "l = map_of kvs ''location''"
  define tm where "tm = (case t of None \<Rightarrow> py_str (title ev) | Some v \<Rightarrow> v)"
  define dm where "dm = (case d of None \<Rightarrow> py_str (description ev) | Some v \<Rightarrow> v)"
  define lm where "lm = (case l of None \<Rightarrow> py_str (location ev) | Some v \<Rightarrow> v)"
  define em where
    "em = (case map_of kvs ''event_date'' of None \<Rightarrow> PStr (strftime B sd) | Some v \<Rightarrow> v)"
  obtain e where e:
    "(case map_of kvs ''event_date'' of None \<Rightarrow> Inr None
      | Some v \<Rightarrow> (case py_strptime B v of Inl ex \<Rightarrow> Inl ex | Inr p \<Rightarrow> Inr (Some p)))
       = Inr e"
    "bind_datetime B em
       = (case e of None \<Rightarrow> Some (Some sd) | Some p \<Rightarrow> bind_datetime B (PDate p))"
    using assms(3,5) sd
    by (cases "map_of kvs ''event_date''")
       (auto simp: date_agrees_def em_def round_trips_def py_strptime_def
          split: py.splits option.splits)
  have orm: "update_event B i (Parsed (PDict kvs)) db
      = rolled_back B db
         (case flush_update B ev t d e l db of
            Inl ex \<Rightarrow> Inl (ex, [Select, Commit])
          | Inr db' \<Rightarrow>
             (case select_by_id db' i of
                None \<Rightarrow> Inl (DatabaseError, [Select, Commit])
              | Some event' \<Rightarrow>
                  Inr ((PDict [(''message'', PStr ''Event updated successfully''),
                               (''event_id'', PInt (row_id event')),
                               (''updated_event'', to_dict B event')], 200),
                       db', [Select, Commit])))"
    using assms(1,4) e(1)
    by (simp add: update_event_def update_event_try_def supplied_dict t_def d_def l_def)
  have raw: "update_event_mysql B i (Parsed (PDict kvs)) db
      = rolled_back B db
         (case db_update B tm dm em lm i db of
            Inl ex \<Rightarrow> Inl (ex, [Select, Update])
          | Inr (rowcount, db') \<Rightarrow>
              if rowcount = 0
              then Inr (json_message
                     ''No changes made to event or event not found after initial check''
                     200, db', [Select, Update, Commit])
              else Inr ((PDict [(''message'', PStr ''Event updated successfully''),
                                (''event_id'', PInt i),
                                (''updated_event'', PDict [(''title'', tm),
                                                           (''description'', dm),
                                                           (''event_date'', em),
                                                           (''location'', lm)])], 200),
                        db', [Select, Update, Commit]))"
    using assms(1,4) sd
    by (simp add: update_event_mysql_def update_event_mysql_try_def
        tm_def dm_def lm_def em_def t_def d_def l_def
        cong: sum.case_cong prod.case_cong if_cong)
  from flush_vs_update [OF assms(1-3) sd e(2), of t d l]
  have fu: "case flush_update B ev t d e l db of
           Inl x \<Rightarrow> (\<exists>y. db_update B tm dm em lm i db = Inl y)
         | Inr db' \<Rightarrow> (\<exists>n. db_update B tm dm em lm i db = Inr (n, db'))"
    unfolding tm_def dm_def lm_def .
  show ?thesis
  proof (cases "flush_update B ev t d e l db")
    case (Inl x)
    with fu obtain y where "db_update B tm dm em lm i db = Inl y"
      by auto
    with Inl show ?thesis
      by (simp add: orm raw)
  next
    case (Inr db')
    with fu obtain n where u: "db_update B tm dm em lm i db = Inr (n, db')"
      by auto
    from flush_update_row [OF Inr assms(1)] obtain ev' where "select_by_id db' i = Some ev'"
      by blast
    with Inr u show ?thesis
      by (simp add: orm raw)
  qed
qed


lemma update_agree:
  assumes "select_by_id db i = Some ev" and "not_null ev" and "round_trips B ev"
    and "object_or_empty data" and "date_agrees B data"
  shows "status (update_event B i (Parsed data) db)
           = status (update_event_mysql B i (Parsed data) db)
       \<and> stored (update_event B i (Parsed data) db)
           = stored (update_event_mysql B i (Parsed data) db)"
proof (cases "truthy data")
  case False
  then show ?thesis
    using assms(1)
    by (simp add: update_event_def update_event_try_def update_event_mysql_def
        update_event_mysql_try_def)
next
  case True
  with assms(4) obtain kvs where "data = PDict kvs" "kvs \<noteq> []"
    by (cases data) (auto simp: object_or_empty_def)
  with update_agree_dict [OF assms(1-3), of kvs] assms(5) show ?thesis
    by simp
qed

lemma delete_agree:
  assumes "select_by_id db i = Some ev"
  shows "delete_event B i db = delete_event_mysql i db"
proof -
  from select_by_id_Some [OF assms] have "row_id ev = i"
    by simp
  moreover from assms have "list_ex (\<lambda>r. row_id r = i) (events db)"
    using select_by_id_None [of db i] by simp
  ultimately show ?thesis
    using assms by (simp add: delete_event_def delete_event_mysql_def)
qed

text \<open>
  C2, as the code has it. On the same table, the two variants answer a comparable
  request with the same status and leave the same table. The bodies of the answers are
  not the same in general: \<^verbatim>\<open>app_mysql.py\<close> returns the four request fields where \<^verbatim>\<open>app.py\<close>
  returns the six stored columns, its reads return \<^verbatim>\<open>datetime\<close> objects where \<^verbatim>\<open>app.py\<close>
  returns formatted strings, and its error texts are its own.
\<close>

theorem variants_agree:
  assumes "comparable B db r"
  shows "status (handle B r db) = status (handle_mysql B r db)
       \<and> stored (handle B r db) = stored (handle_mysql B r db)"
proof (cases r)
  case (POST now b)
  show ?thesis
  proof (cases b)
    case Unreadable
    with POST show ?thesis
      by (simp add: handle_def handle_mysql_def create_event_def create_event_try_def
          create_event_mysql_def create_event_mysql_try_def)
  next
    case (Parsed data)
    with POST assms have "date_agrees B data"
      by (simp add: comparable_def)
    with POST Parsed create_agree [of B data now db] show ?thesis
      by (simp add: handle_def handle_mysql_def)
  qed
next
  case GET_all
  then show ?thesis
    by (simp add: handle_def handle_mysql_def get_all_events_def get_all_events_mysql_def)
next
  case (GET i)
  then show ?thesis
    by (simp add: handle_def handle_mysql_def get_single_event_def get_single_event_mysql_def
        split: option.splits)
next
  case (PUT i b)
  show ?thesis
  proof (cases "select_by_id db i")
    case None
    with PUT update_event_not_found [OF None, of B b] show ?thesis
      by (simp add: handle_def handle_mysql_def)
  next
    case (Some ev)
    with PUT assms have c: "not_null ev" "round_trips B ev"
      by (simp_all add: comparable_def)
    show ?thesis
    proof (cases b)
      case Unreadable
      with PUT Some show ?thesis
        by (simp add: handle_def handle_mysql_def update_event_def update_event_try_def
            update_event_mysql_def update_event_mysql_try_def)
    next
      case (Parsed data)
      with PUT Some assms have "object_or_empty data" "date_agrees B data"
        by (simp_all add: comparable_def)
      with PUT Parsed update_agree [OF Some c, of data] show ?thesis
        by (simp add: handle_def handle_mysql_def)
    qed
  qed
next
  case (DELETE i)
  with assms obtain ev where "select_by_id db i = Some ev"
    by (auto simp: comparable_def)
  with DELETE delete_agree [of db i ev B] show ?thesis
    by (simp add: handle_def handle_mysql_def)
qed

theorem variants_agree_witness:
  "comparable strict_mysql launch_db (PUT 1 (Parsed (PDict [(''title'', PStr ''Lunch'')])))
   \<and> status (handle strict_mysql (PUT 1 (Parsed (PDict [(''title'', PStr ''Lunch'')]))) launch_db)
       = status (handle_mysql strict_mysql (PUT 1 (Parsed (PDict [(''title'', PStr ''Lunch'')])))
           launch_db)
   \<and> stored (handle strict_mysql (PUT 1 (Parsed (PDict [(''title'', PStr ''Lunch'')]))) launch_db)
       = stored (handle_mysql strict_mysql (PUT 1 (Parsed (PDict [(''title'', PStr ''Lunch'')])))
           launch_db)"
proof -
  have c: "comparable strict_mysql launch_db
             (PUT 1 (Parsed (PDict [(''title'', PStr ''Lunch'')])))"
    by (simp add: comparable_def select_by_id_def launch_db_def launch_row_def not_null_def
        round_trips_def object_or_empty_def date_agrees_def py_str_def strict_mysql_def
        strict_varchar_def strict_text_def strict_datetime_def is_datetime_def digit_def
        month_ok_def day_ok_def hour_ok_def sixty_ok_def)
  show ?thesis
    using c variants_agree [OF c] by blast
qed

text \<open>
  The claim as it is written fails: the create request with the date \<^verbatim>\<open>2024-01-01\<close> is
  answered with 400 by \<^verbatim>\<open>app.py\<close> and with 201 by \<^verbatim>\<open>app_mysql.py\<close>.
\<close>

theorem variants_disagree_on_date:
  "status (handle strict_mysql (POST noon (Parsed date_only)) empty_db) = 400
   \<and> status (handle_mysql strict_mysql (POST noon (Parsed date_only)) empty_db) = 201"
  by (simp add: handle_def handle_mysql_def create_event_def create_event_try_def
      create_event_mysql_def create_event_mysql_try_def date_only_def required_fields_def
      py_strptime_def db_insert_def strict_mysql_def strict_varchar_def strict_text_def
      strict_datetime_def is_datetime_def digit_def month_ok_def day_ok_def hour_ok_def
      sixty_ok_def not_null_def empty_db_def)

end
